theory Spec2Isabelle
  imports Main "HOL-Library.Sublist"
begin

section \<open>The real-time client of \<^verbatim>\<open>src/lib/websocket.ts\<close>\<close>

text \<open>
  The class \<^verbatim>\<open>WebSocketService\<close> owns one socket reference, a reconnect counter and
  two constants. Everything else it touches is outside the file: the transport library
  (\<^verbatim>\<open>io\<close>, \<^verbatim>\<open>socket.on\<close>, \<^verbatim>\<open>socket.emit\<close>, ...), the timer queue
  (\<^verbatim>\<open>setTimeout\<close>), the browser window, the toast library and the console. The
  model keeps the instance and this environment in one record and threads it through
  every method. What the code does to the outside is appended to a trace of effects.
\<close>

subsection \<open>Payloads\<close>

text \<open>
  Inbound data is typed \<^verbatim>\<open>any\<close> in the source. The model takes the object shapes
  the handlers read: \<^verbatim>\<open>pointsGained\<close>, \<^verbatim>\<open>badgeName\<close>, \<^verbatim>\<open>streakMilestone\<close>,
  \<^verbatim>\<open>type\<close> and \<^verbatim>\<open>message\<close>. A field that a handler tests is optional
  (\<open>None\<close> is JavaScript's \<^verbatim>\<open>undefined\<close>); numbers are integers.
\<close>

record payload =
  pointsGained :: "int option"
  badgeName :: string
  streakMilestone :: "int option"
  msg_type :: "string option"
  message :: string

datatype jsval = Str string | Num int

type_synonym fields = "(string \<times> jsval) list"

subsection \<open>Transport events and listeners\<close>

datatype event =
    Connect
  | Disconnect string
  | ConnectError
  | Message string payload

fun event_name :: "event \<Rightarrow> string" where
  "event_name Connect = ''connect''"
| "event_name (Disconnect reason) = ''disconnect''"
| "event_name ConnectError = ''connect_error''"
| "event_name (Message topic d) = topic"

text \<open>
  A listener on a handle is either one of the arrow functions that
  \<^verbatim>\<open>setupEventListeners\<close> installs, or a callback the application passed to
  \<^verbatim>\<open>on\<close>. Application callbacks are opaque: the model records that they ran.
\<close>

datatype listener = Builtin | Callback nat

record handle =
  connected :: bool
  destroyed :: bool
  listeners :: "(string \<times> listener) list"

subsection \<open>Observable effects\<close>

datatype console = Log string | LogAttempt nat nat | Err string

datatype toast_fn = ToastSuccess | ToastError | ToastPlain

datatype toast_msg =
    PointsEarned int
  | BadgeUnlocked string
  | StreakDay int
  | Text string
  | ConnectionLost

datatype toast_icon = WarningSign | Trophy

datatype toast_style = Green | Purple | Gradient

datatype effect =
    Console console
  | WindowEvent string "payload option"
  | Toast toast_fn toast_msg "nat option" "toast_icon option" "toast_style option"
  | SocketEmit nat string fields
  | SocketDisconnect nat
  | Invoke nat event

subsection \<open>The environment and the instance\<close>

record world =
  hasWindow :: bool
  handles :: "handle list"
  timers :: "nat list"
  effects :: "effect list"

record WebSocketService = world +
  socket :: "nat option"
  reconnectAttempts :: nat
  maxReconnectAttempts :: nat
  reconnectDelay :: nat

definition perform :: "effect \<Rightarrow> 'a world_scheme \<Rightarrow> 'a world_scheme" where
  "perform e w = w\<lparr>effects := effects w @ [e]\<rparr>"

text \<open>\<^verbatim>\<open>if (typeof window !== 'undefined') window.dispatchEvent(new CustomEvent(name, { detail }))\<close>\<close>

definition window_dispatchEvent ::
  "string \<Rightarrow> payload option \<Rightarrow> 'a world_scheme \<Rightarrow> 'a world_scheme" where
  "window_dispatchEvent name detail w =
     (if hasWindow w then perform (WindowEvent name detail) w else w)"

definition setTimeout :: "nat \<Rightarrow> 'a world_scheme \<Rightarrow> 'a world_scheme" where
  "setTimeout delay w = w\<lparr>timers := timers w @ [delay]\<rparr>"

subsection \<open>The transport's primitives\<close>

text \<open>
  The transport library is not part of the repository. Its primitives are modelled by
  their documented contract: \<^verbatim>\<open>io\<close> with \<^verbatim>\<open>forceNew\<close> returns a fresh handle,
  \<^verbatim>\<open>on\<close> appends a listener, \<^verbatim>\<open>off\<close> removes one registration of a callback,
  \<^verbatim>\<open>removeAllListeners\<close> removes every listener of an event name, \<^verbatim>\<open>emit\<close> is
  a send call, and an inbound event runs the listeners of its name in registration order.
  The send call is modelled for application event names, as all nine commands use; what
  the transport does when asked to emit one of its own reserved names (\<^verbatim>\<open>connect\<close>,
  \<^verbatim>\<open>disconnect\<close>, \<^verbatim>\<open>connect_error\<close>) is not covered.
\<close>

definition new_handle :: handle where
  "new_handle = \<lparr>connected = False, destroyed = False, listeners = []\<rparr>"

definition io :: "'a world_scheme \<Rightarrow> nat \<times> 'a world_scheme" where
  "io w = (length (handles w), w\<lparr>handles := handles w @ [new_handle]\<rparr>)"

definition update_handle ::
  "nat \<Rightarrow> (handle \<Rightarrow> handle) \<Rightarrow> 'a world_scheme \<Rightarrow> 'a world_scheme" where
  "update_handle h f w =
     (if h < length (handles w) then w\<lparr>handles := (handles w)[h := f (handles w ! h)]\<rparr> else w)"

definition socket_on :: "nat \<Rightarrow> string \<Rightarrow> listener \<Rightarrow> 'a world_scheme \<Rightarrow> 'a world_scheme" where
  "socket_on h name l = update_handle h (\<lambda>x. x\<lparr>listeners := listeners x @ [(name, l)]\<rparr>)"

definition socket_off :: "nat \<Rightarrow> string \<Rightarrow> nat \<Rightarrow> 'a world_scheme \<Rightarrow> 'a world_scheme" where
  "socket_off h name cb =
     update_handle h (\<lambda>x. x\<lparr>listeners := remove1 (name, Callback cb) (listeners x)\<rparr>)"

definition socket_removeAllListeners :: "nat \<Rightarrow> string \<Rightarrow> 'a world_scheme \<Rightarrow> 'a world_scheme" where
  "socket_removeAllListeners h name =
     update_handle h (\<lambda>x. x\<lparr>listeners := filter (\<lambda>p. fst p \<noteq> name) (listeners x)\<rparr>)"

definition socket_emit :: "nat \<Rightarrow> string \<Rightarrow> fields \<Rightarrow> 'a world_scheme \<Rightarrow> 'a world_scheme" where
  "socket_emit h name d = perform (SocketEmit h name d)"

definition socket_connected :: "nat \<Rightarrow> 'a world_scheme \<Rightarrow> bool" where
  "socket_connected h w = (h < length (handles w) \<and> connected (handles w ! h))"

definition listeners_for :: "nat \<Rightarrow> string \<Rightarrow> 'a world_scheme \<Rightarrow> listener list" where
  "listeners_for h name w =
     (if h < length (handles w)
      then map snd (filter (\<lambda>p. fst p = name) (listeners (handles w ! h)))
      else [])"

definition live :: "nat \<Rightarrow> 'a world_scheme \<Rightarrow> bool" where
  "live h w = (h < length (handles w) \<and> \<not> destroyed (handles w ! h))"

subsection \<open>The class\<close>

text \<open>
  \<^verbatim>\<open>handleReconnect\<close>: give up at the bound, otherwise count the attempt and schedule
  \<^verbatim>\<open>connect\<close> after \<^verbatim>\<open>reconnectDelay * Math.pow(2, reconnectAttempts - 1)\<close>. The
  operands are small integers, on which the source's floating-point product is exact.
  The timer's callback is always the same closure, so a pending timer is its delay.
\<close>

definition handleReconnect :: "WebSocketService \<Rightarrow> WebSocketService" where
  "handleReconnect s =
     (if reconnectAttempts s \<ge> maxReconnectAttempts s
      then perform (Toast ToastError ConnectionLost None None None)
             (perform (Console (Err ''Max reconnection attempts reached'')) s)
      else let s1 = s\<lparr>reconnectAttempts := reconnectAttempts s + 1\<rparr>;
               delay = reconnectDelay s1 * 2 ^ (reconnectAttempts s1 - 1)
           in setTimeout delay s1)"

text \<open>The listeners of \<^verbatim>\<open>setupEventListeners\<close>, one definition per arrow function.\<close>

definition on_connect :: "WebSocketService \<Rightarrow> WebSocketService" where
  "on_connect s =
     window_dispatchEvent ''websocket-connected'' None
       ((perform (Console (Log ''WebSocket connected'')) s)\<lparr>reconnectAttempts := 0\<rparr>)"

definition on_disconnect :: "string \<Rightarrow> WebSocketService \<Rightarrow> WebSocketService" where
  "on_disconnect reason s =
     (let s1 = perform (Console (Log ''WebSocket disconnected:'')) s;
          s2 = window_dispatchEvent ''websocket-disconnected'' None s1
      in if reason = ''io server disconnect'' then handleReconnect s2 else s2)"

definition on_connect_error :: "WebSocketService \<Rightarrow> WebSocketService" where
  "on_connect_error s =
     handleReconnect (perform (Console (Err ''WebSocket connection error:'')) s)"

definition on_leaderboard_update :: "payload \<Rightarrow> WebSocketService \<Rightarrow> WebSocketService" where
  "on_leaderboard_update d s =
     window_dispatchEvent ''leaderboard-update'' (Some d)
       (perform (Console (Log ''Leaderboard update received:'')) s)"

definition on_points_update :: "payload \<Rightarrow> WebSocketService \<Rightarrow> WebSocketService" where
  "on_points_update d s =
     (let s1 = perform (Console (Log ''Points update received:'')) s;
          s2 = window_dispatchEvent ''points-update'' (Some d) s1
      in case pointsGained d of
           None \<Rightarrow> s2
         | Some n \<Rightarrow>
             if n > 0
             then perform (Toast ToastSuccess (PointsEarned n) (Some 3000) None (Some Green)) s2
             else s2)"

definition on_badge_unlocked :: "payload \<Rightarrow> WebSocketService \<Rightarrow> WebSocketService" where
  "on_badge_unlocked d s =
     (let s1 = perform (Console (Log ''Badge unlocked:'')) s;
          s2 = window_dispatchEvent ''badge-unlocked'' (Some d) s1
      in perform (Toast ToastSuccess (BadgeUnlocked (badgeName d)) (Some 5000) None (Some Purple)) s2)"

definition on_streak_update :: "payload \<Rightarrow> WebSocketService \<Rightarrow> WebSocketService" where
  "on_streak_update d s =
     (let s1 = perform (Console (Log ''Streak update received:'')) s;
          s2 = window_dispatchEvent ''streak-update'' (Some d) s1
      in case streakMilestone d of
           None \<Rightarrow> s2
         | Some n \<Rightarrow>
             if n \<noteq> 0
             then perform (Toast ToastSuccess (StreakDay n) (Some 4000) None None) s2
             else s2)"

definition on_quiz_session_update :: "payload \<Rightarrow> WebSocketService \<Rightarrow> WebSocketService" where
  "on_quiz_session_update d s =
     window_dispatchEvent ''quiz-session-update'' (Some d)
       (perform (Console (Log ''Quiz session update:'')) s)"

definition on_course_enrollment :: "payload \<Rightarrow> WebSocketService \<Rightarrow> WebSocketService" where
  "on_course_enrollment d s =
     window_dispatchEvent ''course-enrollment'' (Some d)
       (perform (Console (Log ''Course enrollment update:'')) s)"

definition on_notification :: "payload \<Rightarrow> WebSocketService \<Rightarrow> WebSocketService" where
  "on_notification d s =
     (let s1 = perform (Console (Log ''Notification received:'')) s
      in if msg_type d = Some ''success''
         then perform (Toast ToastSuccess (Text (message d)) (Some 4000) None None) s1
         else if msg_type d = Some ''info''
         then perform (Toast ToastPlain (Text (message d)) (Some 4000) None None) s1
         else if msg_type d = Some ''warning''
         then perform (Toast ToastPlain (Text (message d)) (Some 5000) (Some WarningSign) None) s1
         else if msg_type d = Some ''error''
         then perform (Toast ToastError (Text (message d)) (Some 6000) None None) s1
         else perform (Toast ToastPlain (Text (message d)) None None None) s1)"

definition on_competition_announcement :: "payload \<Rightarrow> WebSocketService \<Rightarrow> WebSocketService" where
  "on_competition_announcement d s =
     perform (Toast ToastPlain (Text (message d)) (Some 8000) (Some Trophy) (Some Gradient))
       (perform (Console (Log ''Competition announcement:'')) s)"

text \<open>
  Which arrow function a built-in listener is. Message topics are the application's
  event names; the transport reserves \<^verbatim>\<open>connect\<close>, \<^verbatim>\<open>disconnect\<close> and
  \<^verbatim>\<open>connect_error\<close> for itself.
\<close>

definition builtin :: "event \<Rightarrow> WebSocketService \<Rightarrow> WebSocketService" where
  "builtin ev s =
     (case ev of
        Connect \<Rightarrow> on_connect s
      | Disconnect reason \<Rightarrow> on_disconnect reason s
      | ConnectError \<Rightarrow> on_connect_error s
      | Message topic d \<Rightarrow>
          if topic = ''leaderboard-update'' then on_leaderboard_update d s
          else if topic = ''points-update'' then on_points_update d s
          else if topic = ''badge-unlocked'' then on_badge_unlocked d s
          else if topic = ''streak-update'' then on_streak_update d s
          else if topic = ''quiz-session-update'' then on_quiz_session_update d s
          else if topic = ''course-enrollment'' then on_course_enrollment d s
          else if topic = ''notification'' then on_notification d s
          else if topic = ''competition-announcement'' then on_competition_announcement d s
          else s)"

definition builtin_events :: "string list" where
  "builtin_events =
     [''connect'', ''disconnect'', ''connect_error'', ''leaderboard-update'',
      ''points-update'', ''badge-unlocked'', ''streak-update'', ''quiz-session-update'',
      ''course-enrollment'', ''notification'', ''competition-announcement'']"

definition setupEventListeners :: "WebSocketService \<Rightarrow> WebSocketService" where
  "setupEventListeners s =
     (case socket s of
        None \<Rightarrow> s
      | Some h \<Rightarrow> foldl (\<lambda>s' name. socket_on h name Builtin s') s builtin_events)"

text \<open>
  \<^verbatim>\<open>connect\<close>: the flag says whether \<^verbatim>\<open>io\<close> throws. When it does, the
  assignment to \<^verbatim>\<open>this.socket\<close> never happens and the catch block runs.
\<close>

definition connect :: "bool \<Rightarrow> WebSocketService \<Rightarrow> WebSocketService" where
  "connect io_throws s =
     (if io_throws
      then handleReconnect (perform (Console (Err ''WebSocket connection failed:'')) s)
      else let (h, s1) = io s
           in setupEventListeners (s1\<lparr>socket := Some h\<rparr>))"

text \<open>The constructor: field initialisers, then \<^verbatim>\<open>this.connect()\<close>.\<close>

definition new_WebSocketService :: "bool \<Rightarrow> world \<Rightarrow> WebSocketService" where
  "new_WebSocketService io_throws w =
     connect io_throws
       \<lparr>hasWindow = hasWindow w, handles = handles w, timers = timers w, effects = effects w,
        socket = None, reconnectAttempts = 0, maxReconnectAttempts = 5, reconnectDelay = 1000\<rparr>"

subsection \<open>Inbound events and timers\<close>

fun run_listener :: "event \<Rightarrow> WebSocketService \<Rightarrow> listener \<Rightarrow> WebSocketService" where
  "run_listener ev s Builtin = builtin ev s"
| "run_listener ev s (Callback cb) = perform (Invoke cb ev) s"

definition deliver :: "nat \<Rightarrow> event \<Rightarrow> WebSocketService \<Rightarrow> WebSocketService" where
  "deliver h ev s = foldl (run_listener ev) s (listeners_for h (event_name ev) s)"

definition set_connected :: "event \<Rightarrow> handle \<Rightarrow> handle" where
  "set_connected ev x =
     (case ev of
        Connect \<Rightarrow> x\<lparr>connected := True\<rparr>
      | Disconnect reason \<Rightarrow> x\<lparr>connected := False\<rparr>
      | ConnectError \<Rightarrow> x
      | Message topic d \<Rightarrow> x)"

text \<open>
  The transport reports an event on handle \<open>h\<close>. A handle that the client has closed
  is detached from its connection and reports nothing more.
\<close>

definition transport_event :: "nat \<Rightarrow> event \<Rightarrow> WebSocketService \<Rightarrow> WebSocketService" where
  "transport_event h ev s =
     (if live h s then deliver h ev (update_handle h (set_connected ev) s) else s)"

text \<open>
  \<^verbatim>\<open>socket.disconnect()\<close> of the transport: the handle is detached, and if it was
  connected its \<^verbatim>\<open>disconnect\<close> listeners run with the reason
  \<^verbatim>\<open>io client disconnect\<close>.
\<close>

definition socket_disconnect :: "nat \<Rightarrow> WebSocketService \<Rightarrow> WebSocketService" where
  "socket_disconnect h s =
     (let was = socket_connected h s;
          s1 = update_handle h (\<lambda>x. x\<lparr>connected := False, destroyed := True\<rparr>)
                 (perform (SocketDisconnect h) s)
      in if was then deliver h (Disconnect ''io client disconnect'') s1 else s1)"

text \<open>The \<open>i\<close>-th pending timer fires: it leaves the queue and its callback runs.\<close>

definition fire_timer :: "nat \<Rightarrow> bool \<Rightarrow> WebSocketService \<Rightarrow> WebSocketService" where
  "fire_timer i io_throws s =
     (if i < length (timers s)
      then connect io_throws
             (perform (Console (LogAttempt (reconnectAttempts s) (maxReconnectAttempts s)))
                (s\<lparr>timers := take i (timers s) @ drop (Suc i) (timers s)\<rparr>))
      else s)"

subsection \<open>The public methods\<close>

definition joinCourse :: "string \<Rightarrow> string \<Rightarrow> WebSocketService \<Rightarrow> WebSocketService" where
  "joinCourse courseId userId s =
     (case socket s of
        None \<Rightarrow> s
      | Some h \<Rightarrow>
          socket_emit h ''join-course'' [(''courseId'', Str courseId), (''userId'', Str userId)] s)"

definition leaveCourse :: "string \<Rightarrow> string \<Rightarrow> WebSocketService \<Rightarrow> WebSocketService" where
  "leaveCourse courseId userId s =
     (case socket s of
        None \<Rightarrow> s
      | Some h \<Rightarrow>
          socket_emit h ''leave-course'' [(''courseId'', Str courseId), (''userId'', Str userId)] s)"

definition joinLeaderboard :: "string \<Rightarrow> WebSocketService \<Rightarrow> WebSocketService" where
  "joinLeaderboard userId s =
     (case socket s of
        None \<Rightarrow> s
      | Some h \<Rightarrow> socket_emit h ''join-leaderboard'' [(''userId'', Str userId)] s)"

definition leaveLeaderboard :: "string \<Rightarrow> WebSocketService \<Rightarrow> WebSocketService" where
  "leaveLeaderboard userId s =
     (case socket s of
        None \<Rightarrow> s
      | Some h \<Rightarrow> socket_emit h ''leave-leaderboard'' [(''userId'', Str userId)] s)"

definition submitQuizAnswer :: "fields \<Rightarrow> WebSocketService \<Rightarrow> WebSocketService" where
  "submitQuizAnswer d s =
     (case socket s of None \<Rightarrow> s | Some h \<Rightarrow> socket_emit h ''quiz-answer'' d s)"

definition startQuiz :: "fields \<Rightarrow> WebSocketService \<Rightarrow> WebSocketService" where
  "startQuiz d s =
     (case socket s of None \<Rightarrow> s | Some h \<Rightarrow> socket_emit h ''start-quiz'' d s)"

definition completeLesson :: "fields \<Rightarrow> WebSocketService \<Rightarrow> WebSocketService" where
  "completeLesson d s =
     (case socket s of None \<Rightarrow> s | Some h \<Rightarrow> socket_emit h ''lesson-completed'' d s)"

text \<open>\<open>now\<close> is the value of \<^verbatim>\<open>Date.now()\<close> at the call.\<close>

definition sendHeartbeat :: "string \<Rightarrow> int \<Rightarrow> WebSocketService \<Rightarrow> WebSocketService" where
  "sendHeartbeat userId now s =
     (case socket s of
        None \<Rightarrow> s
      | Some h \<Rightarrow>
          socket_emit h ''heartbeat'' [(''userId'', Str userId), (''timestamp'', Num now)] s)"

definition updateActivity :: "string \<Rightarrow> string \<Rightarrow> int \<Rightarrow> WebSocketService \<Rightarrow> WebSocketService" where
  "updateActivity userId activity now s =
     (case socket s of
        None \<Rightarrow> s
      | Some h \<Rightarrow>
          socket_emit h ''user-activity''
            [(''userId'', Str userId), (''activity'', Str activity), (''timestamp'', Num now)] s)"

definition isConnected :: "WebSocketService \<Rightarrow> bool" where
  "isConnected s = (case socket s of None \<Rightarrow> False | Some h \<Rightarrow> socket_connected h s)"

definition disconnect :: "WebSocketService \<Rightarrow> WebSocketService" where
  "disconnect s =
     (case socket s of
        None \<Rightarrow> s
      | Some h \<Rightarrow> (socket_disconnect h s)\<lparr>socket := None\<rparr>)"

definition emit :: "string \<Rightarrow> fields \<Rightarrow> WebSocketService \<Rightarrow> WebSocketService" where
  "emit name d s = (case socket s of None \<Rightarrow> s | Some h \<Rightarrow> socket_emit h name d s)"

definition on :: "string \<Rightarrow> nat \<Rightarrow> WebSocketService \<Rightarrow> WebSocketService" where
  "on name cb s = (case socket s of None \<Rightarrow> s | Some h \<Rightarrow> socket_on h name (Callback cb) s)"

definition off :: "string \<Rightarrow> nat option \<Rightarrow> WebSocketService \<Rightarrow> WebSocketService" where
  "off name callback s =
     (case socket s of
        None \<Rightarrow> s
      | Some h \<Rightarrow>
          (case callback of
             Some cb \<Rightarrow> socket_off h name cb s
           | None \<Rightarrow> socket_removeAllListeners h name s))"

subsection \<open>Calls, as data\<close>

datatype op =
    JoinCourse string string
  | LeaveCourse string string
  | JoinLeaderboard string
  | LeaveLeaderboard string
  | SubmitQuizAnswer fields
  | StartQuiz fields
  | CompleteLesson fields
  | SendHeartbeat string int
  | UpdateActivity string string int
  | IsConnected
  | DisconnectOp
  | Emit string fields
  | On string nat
  | Off string "nat option"

datatype ret = Undefined | Boolean bool

fun call :: "op \<Rightarrow> WebSocketService \<Rightarrow> ret \<times> WebSocketService" where
  "call (JoinCourse c u) s = (Undefined, joinCourse c u s)"
| "call (LeaveCourse c u) s = (Undefined, leaveCourse c u s)"
| "call (JoinLeaderboard u) s = (Undefined, joinLeaderboard u s)"
| "call (LeaveLeaderboard u) s = (Undefined, leaveLeaderboard u s)"
| "call (SubmitQuizAnswer d) s = (Undefined, submitQuizAnswer d s)"
| "call (StartQuiz d) s = (Undefined, startQuiz d s)"
| "call (CompleteLesson d) s = (Undefined, completeLesson d s)"
| "call (SendHeartbeat u now) s = (Undefined, sendHeartbeat u now s)"
| "call (UpdateActivity u a now) s = (Undefined, updateActivity u a now s)"
| "call IsConnected s = (Boolean (isConnected s), s)"
| "call DisconnectOp s = (Undefined, disconnect s)"
| "call (Emit name d) s = (Undefined, emit name d s)"
| "call (On name cb) s = (Undefined, on name cb s)"
| "call (Off name callback) s = (Undefined, off name callback s)"

text \<open>The nine outbound commands and the message each of them sends.\<close>

fun command_message :: "op \<Rightarrow> (string \<times> fields) option" where
  "command_message (JoinCourse c u) =
     Some (''join-course'', [(''courseId'', Str c), (''userId'', Str u)])"
| "command_message (LeaveCourse c u) =
     Some (''leave-course'', [(''courseId'', Str c), (''userId'', Str u)])"
| "command_message (JoinLeaderboard u) = Some (''join-leaderboard'', [(''userId'', Str u)])"
| "command_message (LeaveLeaderboard u) = Some (''leave-leaderboard'', [(''userId'', Str u)])"
| "command_message (SubmitQuizAnswer d) = Some (''quiz-answer'', d)"
| "command_message (StartQuiz d) = Some (''start-quiz'', d)"
| "command_message (CompleteLesson d) = Some (''lesson-completed'', d)"
| "command_message (SendHeartbeat u now) =
     Some (''heartbeat'', [(''userId'', Str u), (''timestamp'', Num now)])"
| "command_message (UpdateActivity u a now) =
     Some (''user-activity'', [(''userId'', Str u), (''activity'', Str a), (''timestamp'', Num now)])"
| "command_message IsConnected = None"
| "command_message DisconnectOp = None"
| "command_message (Emit name d) = None"
| "command_message (On name cb) = None"
| "command_message (Off name callback) = None"

subsection \<open>Runs\<close>

text \<open>
  What can happen to an instance: the application calls a method, the transport reports
  an event on a handle, or a pending timer fires.
\<close>

datatype action = Call op | Transport nat event | Timer nat bool

fun step :: "WebSocketService \<Rightarrow> action \<Rightarrow> WebSocketService" where
  "step s (Call c) = snd (call c s)"
| "step s (Transport h ev) = transport_event h ev s"
| "step s (Timer i io_throws) = fire_timer i io_throws s"

definition exec :: "action list \<Rightarrow> WebSocketService \<Rightarrow> WebSocketService" where
  "exec as s = foldl step s as"

subsection \<open>The singleton accessor\<close>

text \<open>
  The module variable \<^verbatim>\<open>websocketService\<close> is \<^verbatim>\<open>null\<close> until the first
  interactive access. Without a window the accessor returns a literal object of
  fourteen empty functions.
\<close>

datatype module = Uninitialised world | Initialised WebSocketService

datatype service = Mock | Instance

fun window_defined :: "module \<Rightarrow> bool" where
  "window_defined (Uninitialised w) = hasWindow w"
| "window_defined (Initialised s) = hasWindow s"

definition getWebSocketService :: "bool \<Rightarrow> module \<Rightarrow> service \<times> module" where
  "getWebSocketService io_throws m =
     (if \<not> window_defined m then (Mock, m)
      else case m of
             Uninitialised w \<Rightarrow> (Instance, Initialised (new_WebSocketService io_throws w))
           | Initialised s \<Rightarrow> (Instance, m))"

text \<open>
  The mock is an object literal: calling a property it does not define would throw a
  \<^verbatim>\<open>TypeError\<close>. These are the properties it defines, and the name under which
  each call looks its method up.
\<close>

datatype error = TypeError

definition mock_methods :: "string list" where
  "mock_methods =
     [''joinCourse'', ''leaveCourse'', ''joinLeaderboard'', ''leaveLeaderboard'',
      ''submitQuizAnswer'', ''startQuiz'', ''completeLesson'', ''sendHeartbeat'',
      ''updateActivity'', ''isConnected'', ''disconnect'', ''emit'', ''on'', ''off'']"

fun method_name :: "op \<Rightarrow> string" where
  "method_name (JoinCourse c u) = ''joinCourse''"
| "method_name (LeaveCourse c u) = ''leaveCourse''"
| "method_name (JoinLeaderboard u) = ''joinLeaderboard''"
| "method_name (LeaveLeaderboard u) = ''leaveLeaderboard''"
| "method_name (SubmitQuizAnswer d) = ''submitQuizAnswer''"
| "method_name (StartQuiz d) = ''startQuiz''"
| "method_name (CompleteLesson d) = ''completeLesson''"
| "method_name (SendHeartbeat u now) = ''sendHeartbeat''"
| "method_name (UpdateActivity u a now) = ''updateActivity''"
| "method_name IsConnected = ''isConnected''"
| "method_name DisconnectOp = ''disconnect''"
| "method_name (Emit name d) = ''emit''"
| "method_name (On name cb) = ''on''"
| "method_name (Off name callback) = ''off''"

text \<open>\<^verbatim>\<open>isConnected: () => false\<close>; every other property is \<^verbatim>\<open>() => {}\<close>.\<close>

definition mock_call :: "string \<Rightarrow> error + ret" where
  "mock_call name =
     (if name \<notin> set mock_methods then Inl TypeError
      else if name = ''isConnected'' then Inr (Boolean False)
      else Inr Undefined)"

text \<open>
  A method call on what the accessor returned. The mock touches nothing. An
  \<open>Instance\<close> is only ever returned together with an initialised module; the remaining
  case cannot arise.
\<close>

fun invoke :: "service \<Rightarrow> op \<Rightarrow> module \<Rightarrow> error + (ret \<times> module)" where
  "invoke Mock c m =
     (case mock_call (method_name c) of Inl e \<Rightarrow> Inl e | Inr r \<Rightarrow> Inr (r, m))"
| "invoke Instance c (Initialised s) = Inr (fst (call c s), Initialised (snd (call c s)))"
| "invoke Instance c (Uninitialised w) = Inl TypeError"

definition world0 :: world where
  "world0 = \<lparr>hasWindow = True, handles = [], timers = [], effects = []\<rparr>"

definition server_world :: world where
  "server_world = \<lparr>hasWindow = False, handles = [], timers = [], effects = []\<rparr>"

subsection \<open>Observations\<close>

text \<open>The delays that one call of \<^verbatim>\<open>handleReconnect\<close> adds to the timer queue.\<close>

definition scheduled :: "WebSocketService \<Rightarrow> nat list" where
  "scheduled s = drop (length (timers s)) (timers (handleReconnect s))"

text \<open>The effects that a step from \<open>s\<close> to \<open>s'\<close> added to the trace.\<close>

definition fresh_effects :: "WebSocketService \<Rightarrow> WebSocketService \<Rightarrow> effect list" where
  "fresh_effects s s' = drop (length (effects s)) (effects s')"

fun is_toast :: "effect \<Rightarrow> bool" where
  "is_toast (Toast f m d i st) = True"
| "is_toast e = False"

fun is_window_event :: "effect \<Rightarrow> bool" where
  "is_window_event (WindowEvent name d) = True"
| "is_window_event e = False"

fun is_socket_emit :: "effect \<Rightarrow> bool" where
  "is_socket_emit (SocketEmit h name d) = True"
| "is_socket_emit e = False"

fun is_connect :: "action \<Rightarrow> bool" where
  "is_connect (Transport h Connect) = True"
| "is_connect a = False"

text \<open>The built-in listener of an event name is registered exactly once on a live handle.\<close>

definition wired :: "nat \<Rightarrow> string \<Rightarrow> WebSocketService \<Rightarrow> bool" where
  "wired h name s = (live h s \<and> count_list (listeners_for h name s) Builtin = 1)"

definition fresh_service :: WebSocketService where
  "fresh_service = new_WebSocketService False world0"

definition sample_payload :: payload where
  "sample_payload =
     \<lparr>pointsGained = Some 50, badgeName = ''Explorer'', streakMilestone = Some 7,
      msg_type = Some ''info'', message = ''hello''\<rparr>"

text \<open>A handle as \<^verbatim>\<open>connect\<close> leaves it: open, with the eleven built-in listeners.\<close>

definition wired_handle :: handle where
  "wired_handle = new_handle\<lparr>listeners := map (\<lambda>n. (n, Builtin)) builtin_events\<rparr>"

definition toasts :: "effect list \<Rightarrow> effect list" where
  "toasts es = filter is_toast es"

definition window_events :: "effect list \<Rightarrow> effect list" where
  "window_events es = filter is_window_event es"

text \<open>What the arrival of a message of topic \<open>t\<close> on handle \<open>h\<close> adds to the trace.\<close>

definition inbound :: "nat \<Rightarrow> string \<Rightarrow> payload \<Rightarrow> WebSocketService \<Rightarrow> effect list" where
  "inbound h t d s = fresh_effects s (transport_event h (Message t d) s)"

text \<open>A new instance after one failed attempt and the retry that follows it.\<close>

definition after_one_retry :: WebSocketService where
  "after_one_retry = fire_timer 0 False (transport_event 0 ConnectError fresh_service)"


text \<open>
  The state between two attempts: \<open>k\<close> failures so far, every handle opened so far still
  open, the newest one current, no timer pending.
\<close>

definition between_attempts :: "nat \<Rightarrow> WebSocketService \<Rightarrow> bool" where
  "between_attempts k s =
     (handles s = replicate (Suc k) wired_handle \<and> socket s = Some k \<and> timers s = [] \<and>
      reconnectAttempts s = k \<and> maxReconnectAttempts s = 5 \<and> reconnectDelay s = 1000)"

text \<open>
  A new instance whose first attempt and all five retries failed: each failure is
  reported on the current handle, each retry fires and opens the next handle, and the
  sixth failure finds the counter at the bound.
\<close>

definition exhausted :: WebSocketService where
  "exhausted =
     exec [Transport 0 ConnectError, Timer 0 False, Transport 1 ConnectError, Timer 0 False,
           Transport 2 ConnectError, Timer 0 False, Transport 3 ConnectError, Timer 0 False,
           Transport 4 ConnectError, Timer 0 False, Transport 5 ConnectError]
       fresh_service"

text \<open>
  A new instance on which the application has called \<^verbatim>\<open>off('points-update')\<close>
  without a callback.
\<close>

definition points_listener_removed :: WebSocketService where
  "points_listener_removed = off ''points-update'' None fresh_service"


section \<open>Lemmas about the model\<close>

subsection \<open>Frames of the primitives\<close>

lemma perform_fields [simp]:
  "hasWindow (perform e w) = hasWindow w"
  "handles (perform e w) = handles w"
  "timers (perform e w) = timers w"
  "effects (perform e w) = effects w @ [e]"
  by (simp_all add: perform_def)

lemma perform_service [simp]:
  "socket (perform e s) = socket s"
  "reconnectAttempts (perform e s) = reconnectAttempts s"
  "maxReconnectAttempts (perform e s) = maxReconnectAttempts s"
  "reconnectDelay (perform e s) = reconnectDelay s"
  by (simp_all add: perform_def)

lemma window_dispatchEvent_fields [simp]:
  "hasWindow (window_dispatchEvent n d w) = hasWindow w"
  "handles (window_dispatchEvent n d w) = handles w"
  "timers (window_dispatchEvent n d w) = timers w"
  "effects (window_dispatchEvent n d w) =
     effects w @ (if hasWindow w then [WindowEvent n d] else [])"
  by (simp_all add: window_dispatchEvent_def)

lemma window_dispatchEvent_service [simp]:
  "socket (window_dispatchEvent n d s) = socket s"
  "reconnectAttempts (window_dispatchEvent n d s) = reconnectAttempts s"
  "maxReconnectAttempts (window_dispatchEvent n d s) = maxReconnectAttempts s"
  "reconnectDelay (window_dispatchEvent n d s) = reconnectDelay s"
  by (simp_all add: window_dispatchEvent_def)

lemma setTimeout_fields [simp]:
  "hasWindow (setTimeout t w) = hasWindow w"
  "handles (setTimeout t w) = handles w"
  "timers (setTimeout t w) = timers w @ [t]"
  "effects (setTimeout t w) = effects w"
  by (simp_all add: setTimeout_def)

lemma setTimeout_service [simp]:
  "socket (setTimeout t s) = socket s"
  "reconnectAttempts (setTimeout t s) = reconnectAttempts s"
  "maxReconnectAttempts (setTimeout t s) = maxReconnectAttempts s"
  "reconnectDelay (setTimeout t s) = reconnectDelay s"
  by (simp_all add: setTimeout_def)

lemma update_handle_fields [simp]:
  "hasWindow (update_handle h f w) = hasWindow w"
  "timers (update_handle h f w) = timers w"
  "effects (update_handle h f w) = effects w"
  "length (handles (update_handle h f w)) = length (handles w)"
  by (simp_all add: update_handle_def)

lemma update_handle_service [simp]:
  "socket (update_handle h f s) = socket s"
  "reconnectAttempts (update_handle h f s) = reconnectAttempts s"
  "maxReconnectAttempts (update_handle h f s) = maxReconnectAttempts s"
  "reconnectDelay (update_handle h f s) = reconnectDelay s"
  by (simp_all add: update_handle_def)

lemma handles_update_handle:
  "handles (update_handle h f w) =
     (if h < length (handles w) then (handles w)[h := f (handles w ! h)] else handles w)"
  by (simp add: update_handle_def)

lemma listeners_for_update_handle:
  "(\<And>x. listeners (f x) = listeners x) \<Longrightarrow>
     listeners_for h name (update_handle k f w) = listeners_for h name w"
  by (simp add: listeners_for_def handles_update_handle nth_list_update)

lemma listeners_set_connected [simp]: "listeners (set_connected ev x) = listeners x"
  by (cases ev) (simp_all add: set_connected_def)

lemma destroyed_set_connected [simp]: "destroyed (set_connected ev x) = destroyed x"
  by (cases ev) (simp_all add: set_connected_def)

subsection \<open>\<^verbatim>\<open>handleReconnect\<close>\<close>

lemma handleReconnect_frame [simp]:
  "hasWindow (handleReconnect s) = hasWindow s"
  "handles (handleReconnect s) = handles s"
  "socket (handleReconnect s) = socket s"
  "maxReconnectAttempts (handleReconnect s) = maxReconnectAttempts s"
  "reconnectDelay (handleReconnect s) = reconnectDelay s"
  by (simp_all add: handleReconnect_def Let_def)

lemma handleReconnect_retry:
  "reconnectAttempts s < maxReconnectAttempts s \<Longrightarrow>
     reconnectAttempts (handleReconnect s) = Suc (reconnectAttempts s) \<and>
     timers (handleReconnect s) = timers s @ [reconnectDelay s * 2 ^ reconnectAttempts s] \<and>
     effects (handleReconnect s) = effects s"
  by (simp add: handleReconnect_def Let_def)

lemma handleReconnect_given_up:
  "maxReconnectAttempts s \<le> reconnectAttempts s \<Longrightarrow>
     reconnectAttempts (handleReconnect s) = reconnectAttempts s \<and>
     timers (handleReconnect s) = timers s \<and>
     effects (handleReconnect s) =
       effects s @ [Console (Err ''Max reconnection attempts reached''),
                    Toast ToastError ConnectionLost None None None]"
  by (simp add: handleReconnect_def Let_def)

lemma handleReconnect_bounded:
  "reconnectAttempts s \<le> maxReconnectAttempts s \<Longrightarrow>
     reconnectAttempts (handleReconnect s) \<le> maxReconnectAttempts s"
  by (simp add: handleReconnect_def Let_def)

subsection \<open>The built-in listeners\<close>

lemmas listener_defs =
  on_connect_def on_disconnect_def on_connect_error_def
  on_leaderboard_update_def on_points_update_def on_badge_unlocked_def
  on_streak_update_def on_quiz_session_update_def on_course_enrollment_def
  on_notification_def on_competition_announcement_def

lemma builtin_frame [simp]:
  "hasWindow (builtin ev s) = hasWindow s"
  "handles (builtin ev s) = handles s"
  "socket (builtin ev s) = socket s"
  "maxReconnectAttempts (builtin ev s) = maxReconnectAttempts s"
  "reconnectDelay (builtin ev s) = reconnectDelay s"
  by (simp_all add: builtin_def listener_defs Let_def split: event.splits option.splits)

lemma builtin_Message_counters [simp]:
  "timers (builtin (Message t d) s) = timers s"
  "reconnectAttempts (builtin (Message t d) s) = reconnectAttempts s"
  by (simp_all add: builtin_def listener_defs Let_def split: option.splits)

lemma builtin_Disconnect_other:
  "reason \<noteq> ''io server disconnect'' \<Longrightarrow>
     timers (builtin (Disconnect reason) s) = timers s \<and>
     reconnectAttempts (builtin (Disconnect reason) s) = reconnectAttempts s"
  by (simp add: builtin_def on_disconnect_def Let_def)

lemma builtin_Disconnect_server:
  "builtin (Disconnect ''io server disconnect'') s =
     handleReconnect (window_dispatchEvent ''websocket-disconnected'' None
       (perform (Console (Log ''WebSocket disconnected:'')) s))"
  by (simp add: builtin_def on_disconnect_def Let_def)

lemma builtin_ConnectError:
  "builtin ConnectError s =
     handleReconnect (perform (Console (Err ''WebSocket connection error:'')) s)"
  by (simp add: builtin_def on_connect_error_def)

lemma builtin_Connect [simp]:
  "reconnectAttempts (builtin Connect s) = 0"
  "timers (builtin Connect s) = timers s"
  by (simp_all add: builtin_def on_connect_def)

lemma builtin_bounded:
  "reconnectAttempts s \<le> maxReconnectAttempts s \<Longrightarrow>
     reconnectAttempts (builtin ev s) \<le> maxReconnectAttempts s"
proof (cases ev)
  case Connect
  then show ?thesis by simp
next
  case (Disconnect reason)
  assume b: "reconnectAttempts s \<le> maxReconnectAttempts s"
  show ?thesis
  proof (cases "reason = ''io server disconnect''")
    case True
    with b Disconnect show ?thesis
      using handleReconnect_bounded
        [of "window_dispatchEvent ''websocket-disconnected'' None
               (perform (Console (Log ''WebSocket disconnected:'')) s)"]
      by (simp add: builtin_Disconnect_server)
  next
    case False
    with b Disconnect show ?thesis by (simp add: builtin_Disconnect_other)
  qed
next
  case ConnectError
  assume "reconnectAttempts s \<le> maxReconnectAttempts s"
  with ConnectError show ?thesis
    using handleReconnect_bounded [of "perform (Console (Err ''WebSocket connection error:'')) s"]
    by (simp add: builtin_ConnectError)
next
  case (Message t d)
  assume "reconnectAttempts s \<le> maxReconnectAttempts s"
  with Message show ?thesis by simp
qed

lemma builtin_given_up:
  assumes "maxReconnectAttempts s \<le> reconnectAttempts s" and "ev \<noteq> Connect"
  shows "reconnectAttempts (builtin ev s) = reconnectAttempts s \<and>
         timers (builtin ev s) = timers s"
proof (cases ev)
  case Connect
  with assms show ?thesis by simp
next
  case (Disconnect reason)
  show ?thesis
  proof (cases "reason = ''io server disconnect''")
    case True
    with assms Disconnect show ?thesis
      using handleReconnect_given_up
        [of "window_dispatchEvent ''websocket-disconnected'' None
               (perform (Console (Log ''WebSocket disconnected:'')) s)"]
      by (simp add: builtin_Disconnect_server)
  next
    case False
    with Disconnect show ?thesis by (simp add: builtin_Disconnect_other)
  qed
next
  case ConnectError
  with assms show ?thesis
    using handleReconnect_given_up [of "perform (Console (Err ''WebSocket connection error:'')) s"]
    by (simp add: builtin_ConnectError)
next
  case (Message t d)
  then show ?thesis by simp
qed

subsection \<open>Running the listeners of a handle\<close>

lemma run_listener_frame [simp]:
  "hasWindow (run_listener ev s l) = hasWindow s"
  "handles (run_listener ev s l) = handles s"
  "socket (run_listener ev s l) = socket s"
  "maxReconnectAttempts (run_listener ev s l) = maxReconnectAttempts s"
  "reconnectDelay (run_listener ev s l) = reconnectDelay s"
  by (cases l; simp)+

lemma foldl_run_listener_frame [simp]:
  "hasWindow (foldl (run_listener ev) s ls) = hasWindow s"
  "handles (foldl (run_listener ev) s ls) = handles s"
  "socket (foldl (run_listener ev) s ls) = socket s"
  "maxReconnectAttempts (foldl (run_listener ev) s ls) = maxReconnectAttempts s"
  "reconnectDelay (foldl (run_listener ev) s ls) = reconnectDelay s"
  by (induction ls arbitrary: s; simp)+

lemma foldl_run_listener_bounded:
  "reconnectAttempts s \<le> maxReconnectAttempts s \<Longrightarrow>
     reconnectAttempts (foldl (run_listener ev) s ls) \<le> maxReconnectAttempts s"
proof (induction ls arbitrary: s)
  case Nil
  then show ?case by simp
next
  case (Cons l ls)
  have "reconnectAttempts (run_listener ev s l) \<le> maxReconnectAttempts (run_listener ev s l)"
    using Cons.prems by (cases l) (simp_all add: builtin_bounded)
  from Cons.IH [OF this] show ?case by simp
qed

lemma foldl_run_listener_given_up:
  "maxReconnectAttempts s \<le> reconnectAttempts s \<Longrightarrow> ev \<noteq> Connect \<Longrightarrow>
     reconnectAttempts (foldl (run_listener ev) s ls) = reconnectAttempts s \<and>
     timers (foldl (run_listener ev) s ls) = timers s"
proof (induction ls arbitrary: s)
  case Nil
  then show ?case by simp
next
  case (Cons l ls)
  have step: "reconnectAttempts (run_listener ev s l) = reconnectAttempts s \<and>
              timers (run_listener ev s l) = timers s"
    using Cons.prems by (cases l) (simp_all add: builtin_given_up)
  with Cons.prems have "maxReconnectAttempts (run_listener ev s l)
      \<le> reconnectAttempts (run_listener ev s l)" by simp
  from Cons.IH [OF this Cons.prems(2)] step show ?case by simp
qed

lemma foldl_run_listener_quiet:
  assumes "\<And>s. timers (builtin ev s) = timers s \<and>
                reconnectAttempts (builtin ev s) = reconnectAttempts s"
  shows "timers (foldl (run_listener ev) s ls) = timers s \<and>
         reconnectAttempts (foldl (run_listener ev) s ls) = reconnectAttempts s"
proof (induction ls arbitrary: s)
  case Nil
  then show ?case by simp
next
  case (Cons l ls)
  have "timers (run_listener ev s l) = timers s \<and>
        reconnectAttempts (run_listener ev s l) = reconnectAttempts s"
    using assms by (cases l) simp_all
  with Cons.IH [of "run_listener ev s l"] show ?case by simp
qed

text \<open>
  Application callbacks only add to the trace. So a property that the single built-in
  listener establishes from \<open>Q\<close>, and that callbacks keep, holds after the whole run.
\<close>

lemma foldl_run_listener_callbacks:
  assumes "count_list ls Builtin = 0" and "R s"
    and "\<And>s c. R s \<Longrightarrow> R (perform (Invoke c ev) s)"
  shows "R (foldl (run_listener ev) s ls)"
  using assms(1,2)
proof (induction ls arbitrary: s)
  case Nil
  then show ?case by simp
next
  case (Cons l ls)
  then obtain c where l: "l = Callback c"
    by (cases l) (simp_all split: if_splits)
  with Cons.prems have "count_list ls Builtin = 0" by simp
  moreover have "R (run_listener ev s l)" using l Cons.prems(2) assms(3) by simp
  ultimately show ?case using Cons.IH by simp
qed

lemma foldl_run_listener_once:
  assumes "count_list ls Builtin = 1" and "Q s"
    and "\<And>s c. Q s \<Longrightarrow> Q (perform (Invoke c ev) s)"
    and "\<And>s. Q s \<Longrightarrow> R (builtin ev s)"
    and "\<And>s c. R s \<Longrightarrow> R (perform (Invoke c ev) s)"
  shows "R (foldl (run_listener ev) s ls)"
  using assms(1,2)
proof (induction ls arbitrary: s)
  case Nil
  then show ?case by simp
next
  case (Cons l ls)
  show ?case
  proof (cases l)
    case Builtin
    with Cons.prems have "count_list ls Builtin = 0" by simp
    moreover have "R (builtin ev s)" using Cons.prems(2) assms(4) by simp
    ultimately have "R (foldl (run_listener ev) (builtin ev s) ls)"
      using assms(5) by (rule foldl_run_listener_callbacks)
    with Builtin show ?thesis by simp
  next
    case (Callback c)
    with Cons.prems have "count_list ls Builtin = 1" by simp
    moreover have "Q (run_listener ev s l)" using Callback Cons.prems(2) assms(3) by simp
    ultimately show ?thesis using Cons.IH by simp
  qed
qed

subsection \<open>Transport events\<close>

lemma transport_event_live:
  "live h s \<Longrightarrow>
     transport_event h ev s =
       foldl (run_listener ev) (update_handle h (set_connected ev) s)
         (listeners_for h (event_name ev) s)"
  by (simp add: transport_event_def deliver_def listeners_for_update_handle)


lemma transport_event_frame [simp]:
  "hasWindow (transport_event h ev s) = hasWindow s"
  "socket (transport_event h ev s) = socket s"
  "maxReconnectAttempts (transport_event h ev s) = maxReconnectAttempts s"
  "reconnectDelay (transport_event h ev s) = reconnectDelay s"
  "length (handles (transport_event h ev s)) = length (handles s)"
  by (simp_all add: transport_event_def deliver_def)

lemma transport_event_retry:
  assumes "live h s" and "count_list (listeners_for h (event_name ev) s) Builtin = 1"
    and "reconnectAttempts s < maxReconnectAttempts s"
    and "ev = ConnectError \<or> ev = Disconnect ''io server disconnect''"
  shows "reconnectAttempts (transport_event h ev s) = Suc (reconnectAttempts s) \<and>
         timers (transport_event h ev s) =
           timers s @ [reconnectDelay s * 2 ^ reconnectAttempts s]"
proof -
  let ?Q = "\<lambda>x. reconnectAttempts x = reconnectAttempts s \<and> timers x = timers s \<and>
                 maxReconnectAttempts x = maxReconnectAttempts s \<and>
                 reconnectDelay x = reconnectDelay s"
  let ?R = "\<lambda>x. reconnectAttempts x = Suc (reconnectAttempts s) \<and>
                 timers x = timers s @ [reconnectDelay s * 2 ^ reconnectAttempts s]"
  have step: "?R (builtin ev x)" if "?Q x" for x
  proof -
    from assms(4) show ?thesis
    proof
      assume "ev = ConnectError"
      with that assms(3) show ?thesis
        using handleReconnect_retry [of "perform (Console (Err ''WebSocket connection error:'')) x"]
        by (simp add: builtin_ConnectError)
    next
      assume "ev = Disconnect ''io server disconnect''"
      with that assms(3) show ?thesis
        using handleReconnect_retry
          [of "window_dispatchEvent ''websocket-disconnected'' None
                 (perform (Console (Log ''WebSocket disconnected:'')) x)"]
        by (simp add: builtin_Disconnect_server)
    qed
  qed
  have "?R (foldl (run_listener ev) (update_handle h (set_connected ev) s)
              (listeners_for h (event_name ev) s))"
    by (rule foldl_run_listener_once [where Q = ?Q, OF assms(2)]) (simp_all add: step)
  with assms(1) show ?thesis by (simp add: transport_event_live)
qed

lemma transport_event_quiet:
  assumes "\<And>x. timers (builtin ev x) = timers x \<and>
                reconnectAttempts (builtin ev x) = reconnectAttempts x"
  shows "timers (transport_event h ev s) = timers s \<and>
         reconnectAttempts (transport_event h ev s) = reconnectAttempts s"
  using foldl_run_listener_quiet [OF assms, of "update_handle h (set_connected ev) s"]
  by (simp add: transport_event_def deliver_def)

lemma transport_event_bounded:
  "reconnectAttempts s \<le> maxReconnectAttempts s \<Longrightarrow>
     reconnectAttempts (transport_event h ev s) \<le> maxReconnectAttempts s"
  using foldl_run_listener_bounded [of "update_handle h (set_connected ev) s" ev]
  by (simp add: transport_event_def deliver_def)

lemma transport_event_given_up:
  "maxReconnectAttempts s \<le> reconnectAttempts s \<Longrightarrow> ev \<noteq> Connect \<Longrightarrow>
     reconnectAttempts (transport_event h ev s) = reconnectAttempts s \<and>
     timers (transport_event h ev s) = timers s"
  using foldl_run_listener_given_up [of "update_handle h (set_connected ev) s" ev]
  by (simp add: transport_event_def deliver_def)


subsection \<open>Opening a handle\<close>

lemma socket_on_fields [simp]:
  "hasWindow (socket_on h n l w) = hasWindow w"
  "timers (socket_on h n l w) = timers w"
  "effects (socket_on h n l w) = effects w"
  "length (handles (socket_on h n l w)) = length (handles w)"
  by (simp_all add: socket_on_def)

lemma socket_on_service [simp]:
  "socket (socket_on h n l s) = socket s"
  "reconnectAttempts (socket_on h n l s) = reconnectAttempts s"
  "maxReconnectAttempts (socket_on h n l s) = maxReconnectAttempts s"
  "reconnectDelay (socket_on h n l s) = reconnectDelay s"
  by (simp_all add: socket_on_def)

lemma foldl_socket_on_frame [simp]:
  "hasWindow (foldl (\<lambda>s' n. socket_on h n l s') s ns) = hasWindow s"
  "timers (foldl (\<lambda>s' n. socket_on h n l s') s ns) = timers s"
  "effects (foldl (\<lambda>s' n. socket_on h n l s') s ns) = effects s"
  "socket (foldl (\<lambda>s' n. socket_on h n l s') s ns) = socket s"
  "reconnectAttempts (foldl (\<lambda>s' n. socket_on h n l s') s ns) = reconnectAttempts s"
  "maxReconnectAttempts (foldl (\<lambda>s' n. socket_on h n l s') s ns) = maxReconnectAttempts s"
  "reconnectDelay (foldl (\<lambda>s' n. socket_on h n l s') s ns) = reconnectDelay s"
  by (induction ns arbitrary: s; simp)+

lemma foldl_socket_on_handles:
  "h < length (handles s) \<Longrightarrow>
     handles (foldl (\<lambda>s' n. socket_on h n l s') s ns) =
       (handles s)[h := (handles s ! h)
          \<lparr>listeners := listeners (handles s ! h) @ map (\<lambda>n. (n, l)) ns\<rparr>]"
proof (induction ns arbitrary: s)
  case Nil
  then show ?case by simp
next
  case (Cons n ns)
  have "h < length (handles (socket_on h n l s))" using Cons.prems by simp
  from Cons.IH [OF this] Cons.prems show ?case
    by (simp add: socket_on_def handles_update_handle)
qed

lemma setupEventListeners_frame [simp]:
  "hasWindow (setupEventListeners s) = hasWindow s"
  "timers (setupEventListeners s) = timers s"
  "effects (setupEventListeners s) = effects s"
  "socket (setupEventListeners s) = socket s"
  "reconnectAttempts (setupEventListeners s) = reconnectAttempts s"
  "maxReconnectAttempts (setupEventListeners s) = maxReconnectAttempts s"
  "reconnectDelay (setupEventListeners s) = reconnectDelay s"
  by (simp_all add: setupEventListeners_def split: option.splits)

lemma connect_opens:
  "handles (connect False s) = handles s @ [wired_handle]"
  "socket (connect False s) = Some (length (handles s))"
  "timers (connect False s) = timers s"
  "effects (connect False s) = effects s"
  "hasWindow (connect False s) = hasWindow s"
  "reconnectAttempts (connect False s) = reconnectAttempts s"
  "maxReconnectAttempts (connect False s) = maxReconnectAttempts s"
  "reconnectDelay (connect False s) = reconnectDelay s"
  by (simp_all add: connect_def io_def setupEventListeners_def foldl_socket_on_handles
      wired_handle_def new_handle_def)

lemma connect_throws:
  "connect True s = handleReconnect (perform (Console (Err ''WebSocket connection failed:'')) s)"
  by (simp add: connect_def)

lemma connect_frame [simp]:
  "hasWindow (connect b s) = hasWindow s"
  "maxReconnectAttempts (connect b s) = maxReconnectAttempts s"
  "reconnectDelay (connect b s) = reconnectDelay s"
  by (cases b; simp add: connect_opens connect_throws)+

lemma connect_bounded:
  "reconnectAttempts s \<le> maxReconnectAttempts s \<Longrightarrow>
     reconnectAttempts (connect b s) \<le> maxReconnectAttempts s"
  using handleReconnect_bounded [of "perform (Console (Err ''WebSocket connection failed:'')) s"]
  by (cases b) (simp_all add: connect_opens connect_throws)

lemma connect_given_up:
  "maxReconnectAttempts s \<le> reconnectAttempts s \<Longrightarrow>
     reconnectAttempts (connect b s) = reconnectAttempts s \<and> timers (connect b s) = timers s"
  using handleReconnect_given_up [of "perform (Console (Err ''WebSocket connection failed:'')) s"]
  by (cases b) (simp_all add: connect_opens connect_throws)

lemma listeners_for_wired_handle:
  "map snd (filter (\<lambda>p. fst p = name) (listeners wired_handle)) =
     (if name \<in> set builtin_events then [Builtin] else [])"
  by (simp add: wired_handle_def builtin_events_def)

lemma fresh_service_fields:
  "handles fresh_service = [wired_handle]"
  "socket fresh_service = Some 0"
  "timers fresh_service = []"
  "effects fresh_service = []"
  "hasWindow fresh_service"
  "reconnectAttempts fresh_service = 0"
  "maxReconnectAttempts fresh_service = 5"
  "reconnectDelay fresh_service = 1000"
  by (simp_all add: fresh_service_def new_WebSocketService_def world0_def connect_opens)

lemma wired_handle_fields [simp]:
  "\<not> destroyed wired_handle" "\<not> connected wired_handle"
  by (simp_all add: wired_handle_def new_handle_def)

lemma fresh_service_wired:
  "name \<in> set builtin_events \<Longrightarrow> wired 0 name fresh_service"
  by (simp add: wired_def live_def listeners_for_def fresh_service_fields
      listeners_for_wired_handle)


subsection \<open>Timers\<close>

lemma fire_timer_pending:
  "i < length (timers s) \<Longrightarrow>
     fire_timer i b s =
       connect b (perform (Console (LogAttempt (reconnectAttempts s) (maxReconnectAttempts s)))
                    (s\<lparr>timers := take i (timers s) @ drop (Suc i) (timers s)\<rparr>))"
  by (simp add: fire_timer_def)

lemma fire_timer_frame [simp]:
  "hasWindow (fire_timer i b s) = hasWindow s"
  "maxReconnectAttempts (fire_timer i b s) = maxReconnectAttempts s"
  "reconnectDelay (fire_timer i b s) = reconnectDelay s"
  by (simp_all add: fire_timer_def)

lemma fire_timer_opens:
  "i < length (timers s) \<Longrightarrow>
     socket (fire_timer i False s) = Some (length (handles s)) \<and>
     handles (fire_timer i False s) = handles s @ [wired_handle] \<and>
     timers (fire_timer i False s) = take i (timers s) @ drop (Suc i) (timers s)"
  by (simp add: fire_timer_pending connect_opens)

lemma fire_timer_bounded:
  "reconnectAttempts s \<le> maxReconnectAttempts s \<Longrightarrow>
     reconnectAttempts (fire_timer i b s) \<le> maxReconnectAttempts s"
  using connect_bounded
    [of "perform (Console (LogAttempt (reconnectAttempts s) (maxReconnectAttempts s)))
           (s\<lparr>timers := take i (timers s) @ drop (Suc i) (timers s)\<rparr>)" b]
  by (simp add: fire_timer_def)

lemma subseq_remove_nth: "subseq (take i xs @ drop (Suc i) xs) xs"
proof -
  have "drop (Suc i) xs = drop 1 (drop i xs)" by simp
  then have "suffix (drop (Suc i) xs) (drop i xs)" by (simp only: suffix_drop)
  then have "subseq (take i xs @ drop (Suc i) xs) (take i xs @ drop i xs)"
    by (simp only: subseq_append' suffix_imp_subseq)
  then show ?thesis by simp
qed

lemma fire_timer_given_up:
  assumes "maxReconnectAttempts s \<le> reconnectAttempts s"
  shows "reconnectAttempts (fire_timer i b s) = reconnectAttempts s \<and>
         subseq (timers (fire_timer i b s)) (timers s)"
proof (cases "i < length (timers s)")
  case True
  let ?s1 = "perform (Console (LogAttempt (reconnectAttempts s) (maxReconnectAttempts s)))
               (s\<lparr>timers := take i (timers s) @ drop (Suc i) (timers s)\<rparr>)"
  from assms have "maxReconnectAttempts ?s1 \<le> reconnectAttempts ?s1" by simp
  from connect_given_up [OF this, of b] True show ?thesis
    by (simp add: fire_timer_pending subseq_remove_nth)
next
  case False
  then show ?thesis by (simp add: fire_timer_def)
qed

lemma live_wired_handle_append:
  "live (length hs) (s\<lparr>handles := hs @ [wired_handle]\<rparr>)"
  by (simp add: live_def)

lemma after_error_fields:
  "timers (transport_event 0 ConnectError fresh_service) = [1000]"
  "reconnectAttempts (transport_event 0 ConnectError fresh_service) = 1"
  using transport_event_retry [of 0 fresh_service ConnectError] fresh_service_wired [of "''connect_error''"]
  by (simp_all add: wired_def fresh_service_fields builtin_events_def)

lemma handles_transport_event:
  "handles (transport_event h ev s) =
     (if live h s then (handles s)[h := set_connected ev (handles s ! h)] else handles s)"
  by (simp add: transport_event_def deliver_def handles_update_handle live_def)

lemma after_one_retry_fields:
  "handles after_one_retry = [wired_handle, wired_handle]"
  "socket after_one_retry = Some 1"
  "hasWindow after_one_retry"
  using fire_timer_opens [of 0 "transport_event 0 ConnectError fresh_service"]
  by (simp_all add: after_one_retry_def after_error_fields handles_transport_event
      fresh_service_fields live_def set_connected_def)


subsection \<open>Effects of inbound messages\<close>

lemma effects_on_points_update:
  "hasWindow s = hw \<Longrightarrow>
   effects (builtin (Message ''points-update'' d) s) =
     effects s @ Console (Log ''Points update received:'')
       # (if hw then [WindowEvent ''points-update'' (Some d)] else [])
       @ (case pointsGained d of
            None \<Rightarrow> []
          | Some n \<Rightarrow>
              if 0 < n then [Toast ToastSuccess (PointsEarned n) (Some 3000) None (Some Green)]
              else [])"
  by (simp add: builtin_def on_points_update_def Let_def split: option.splits)

lemma effects_on_badge_unlocked:
  "hasWindow s = hw \<Longrightarrow>
   effects (builtin (Message ''badge-unlocked'' d) s) =
     effects s @ Console (Log ''Badge unlocked:'')
       # (if hw then [WindowEvent ''badge-unlocked'' (Some d)] else [])
       @ [Toast ToastSuccess (BadgeUnlocked (badgeName d)) (Some 5000) None (Some Purple)]"
  by (simp add: builtin_def on_badge_unlocked_def Let_def)

lemma effects_on_streak_update:
  "hasWindow s = hw \<Longrightarrow>
   effects (builtin (Message ''streak-update'' d) s) =
     effects s @ Console (Log ''Streak update received:'')
       # (if hw then [WindowEvent ''streak-update'' (Some d)] else [])
       @ (case streakMilestone d of
            None \<Rightarrow> []
          | Some n \<Rightarrow>
              if n \<noteq> 0 then [Toast ToastSuccess (StreakDay n) (Some 4000) None None] else [])"
  by (simp add: builtin_def on_streak_update_def Let_def split: option.splits)

lemma effects_on_notification:
  "effects (builtin (Message ''notification'' d) s) =
     effects s @
       [Console (Log ''Notification received:''),
        if msg_type d = Some ''success''
        then Toast ToastSuccess (Text (message d)) (Some 4000) None None
        else if msg_type d = Some ''info''
        then Toast ToastPlain (Text (message d)) (Some 4000) None None
        else if msg_type d = Some ''warning''
        then Toast ToastPlain (Text (message d)) (Some 5000) (Some WarningSign) None
        else if msg_type d = Some ''error''
        then Toast ToastError (Text (message d)) (Some 6000) None None
        else Toast ToastPlain (Text (message d)) None None None]"
  by (simp add: builtin_def on_notification_def Let_def)

lemma effects_on_competition_announcement:
  "effects (builtin (Message ''competition-announcement'' d) s) =
     effects s @
       [Console (Log ''Competition announcement:''),
        Toast ToastPlain (Text (message d)) (Some 8000) (Some Trophy) (Some Gradient)]"
  by (simp add: builtin_def on_competition_announcement_def)

lemma inbound_filter:
  assumes w: "wired h t s"
    and B: "\<And>x. hasWindow x = hasWindow s \<Longrightarrow> effects (builtin (Message t d) x) = effects x @ B"
    and P: "\<And>c e. \<not> P (Invoke c e)"
  shows "filter P (inbound h t d s) = filter P B"
proof -
  let ?n = "length (effects s)"
  let ?ev = "Message t d"
  let ?Q = "\<lambda>x. hasWindow x = hasWindow s \<and> ?n \<le> length (effects x) \<and>
                 filter P (drop ?n (effects x)) = []"
  let ?R = "\<lambda>x. ?n \<le> length (effects x) \<and> filter P (drop ?n (effects x)) = filter P B"
  from w have l: "live h s" and c: "count_list (listeners_for h (event_name ?ev) s) Builtin = 1"
    by (simp_all add: wired_def)
  have "?R (foldl (run_listener ?ev) (update_handle h (set_connected ?ev) s)
              (listeners_for h (event_name ?ev) s))"
    by (rule foldl_run_listener_once [where Q = ?Q, OF c]) (simp_all add: B P)
  with l show ?thesis
    by (simp add: inbound_def fresh_effects_def transport_event_live)
qed

lemma inbound_window_events:
  assumes "wired h t s"
    and "\<And>x. hasWindow x = hasWindow s \<Longrightarrow> effects (builtin (Message t d) x) = effects x @ B"
  shows "window_events (inbound h t d s) = window_events B"
  unfolding window_events_def by (rule inbound_filter [OF assms]) simp_all

lemma inbound_toasts:
  assumes "wired h t s"
    and "\<And>x. hasWindow x = hasWindow s \<Longrightarrow> effects (builtin (Message t d) x) = effects x @ B"
  shows "toasts (inbound h t d s) = toasts B"
  unfolding toasts_def by (rule inbound_filter [OF assms]) simp_all

lemma transport_event_only_builtin:
  "live h s \<Longrightarrow> listeners_for h (event_name ev) s = [Builtin] \<Longrightarrow>
     transport_event h ev s = builtin ev (update_handle h (set_connected ev) s)"
  by (simp add: transport_event_live)


lemma after_one_retry_wired:
  "name \<in> set builtin_events \<Longrightarrow> wired 0 name after_one_retry \<and> wired 1 name after_one_retry"
  by (simp add: wired_def live_def listeners_for_def after_one_retry_fields
      listeners_for_wired_handle nth_Cons')

lemma points_update_builtin [simp]: "''points-update'' \<in> set builtin_events"
  by (simp add: builtin_events_def)


lemma reserved_topics_builtin [simp]:
  "''badge-unlocked'' \<in> set builtin_events"
  "''streak-update'' \<in> set builtin_events"
  "''notification'' \<in> set builtin_events"
  "''competition-announcement'' \<in> set builtin_events"
  "''connect_error'' \<in> set builtin_events"
  "''disconnect'' \<in> set builtin_events"
  "''connect'' \<in> set builtin_events"
  by (simp_all add: builtin_events_def)


subsection \<open>What events leave alone\<close>

lemma listeners_for_transport_event [simp]:
  "listeners_for h name (transport_event k ev s) = listeners_for h name s"
  by (simp add: transport_event_def deliver_def listeners_for_def handles_update_handle
      nth_list_update)

lemma live_transport_event [simp]: "live h (transport_event k ev s) = live h s"
  by (simp add: transport_event_def deliver_def live_def handles_update_handle nth_list_update)

lemma wired_transport_event [simp]: "wired h name (transport_event k ev s) = wired h name s"
  by (simp add: wired_def)

lemma transport_event_connect:
  assumes "wired h ''connect'' s"
  shows "reconnectAttempts (transport_event h Connect s) = 0 \<and>
         timers (transport_event h Connect s) = timers s"
proof -
  let ?Q = "\<lambda>x. timers x = timers s"
  let ?R = "\<lambda>x. reconnectAttempts x = 0 \<and> timers x = timers s"
  from assms have l: "live h s" and c: "count_list (listeners_for h (event_name Connect) s) Builtin = 1"
    by (simp_all add: wired_def)
  have "?R (foldl (run_listener Connect) (update_handle h (set_connected Connect) s)
              (listeners_for h (event_name Connect) s))"
    by (rule foldl_run_listener_once [where Q = ?Q, OF c]) simp_all
  with l show ?thesis by (simp add: transport_event_live)
qed

lemma transport_event_Disconnect_other:
  "reason \<noteq> ''io server disconnect'' \<Longrightarrow>
     timers (transport_event h (Disconnect reason) s) = timers s \<and>
     reconnectAttempts (transport_event h (Disconnect reason) s) = reconnectAttempts s"
  by (rule transport_event_quiet) (simp add: builtin_Disconnect_other)

lemma transport_event_Message [simp]:
  "timers (transport_event h (Message t d) s) = timers s"
  "reconnectAttempts (transport_event h (Message t d) s) = reconnectAttempts s"
  using transport_event_quiet [of "Message t d" h s] by simp_all

subsection \<open>The explicit stop\<close>

lemma socket_disconnect_frame [simp]:
  "hasWindow (socket_disconnect h s) = hasWindow s"
  "socket (socket_disconnect h s) = socket s"
  "maxReconnectAttempts (socket_disconnect h s) = maxReconnectAttempts s"
  "reconnectDelay (socket_disconnect h s) = reconnectDelay s"
  "length (handles (socket_disconnect h s)) = length (handles s)"
  by (simp_all add: socket_disconnect_def deliver_def Let_def)

lemma socket_disconnect_counters [simp]:
  "timers (socket_disconnect h s) = timers s"
  "reconnectAttempts (socket_disconnect h s) = reconnectAttempts s"
  using foldl_run_listener_quiet [of "Disconnect ''io client disconnect''"
      "update_handle h (\<lambda>x. x\<lparr>connected := False, destroyed := True\<rparr>)
         (perform (SocketDisconnect h) s)"]
  by (simp_all add: socket_disconnect_def deliver_def Let_def builtin_Disconnect_other)


lemma disconnect_fields [simp]:
  "socket (disconnect s) = None"
  "timers (disconnect s) = timers s"
  "reconnectAttempts (disconnect s) = reconnectAttempts s"
  "maxReconnectAttempts (disconnect s) = maxReconnectAttempts s"
  "reconnectDelay (disconnect s) = reconnectDelay s"
  "hasWindow (disconnect s) = hasWindow s"
  "length (handles (disconnect s)) = length (handles s)"
  by (simp_all add: disconnect_def split: option.splits)



subsection \<open>Method calls\<close>

lemma socket_off_service [simp]:
  "reconnectAttempts (socket_off h n c s) = reconnectAttempts s"
  "maxReconnectAttempts (socket_off h n c s) = maxReconnectAttempts s"
  "reconnectDelay (socket_off h n c s) = reconnectDelay s"
  "timers (socket_off h n c s) = timers s"
  by (simp_all add: socket_off_def)

lemma socket_removeAllListeners_service [simp]:
  "reconnectAttempts (socket_removeAllListeners h n s) = reconnectAttempts s"
  "maxReconnectAttempts (socket_removeAllListeners h n s) = maxReconnectAttempts s"
  "reconnectDelay (socket_removeAllListeners h n s) = reconnectDelay s"
  "timers (socket_removeAllListeners h n s) = timers s"
  by (simp_all add: socket_removeAllListeners_def)

lemma socket_emit_service [simp]:
  "reconnectAttempts (socket_emit h n d s) = reconnectAttempts s"
  "maxReconnectAttempts (socket_emit h n d s) = maxReconnectAttempts s"
  "reconnectDelay (socket_emit h n d s) = reconnectDelay s"
  "timers (socket_emit h n d s) = timers s"
  by (simp_all add: socket_emit_def)

lemmas method_defs =
  joinCourse_def leaveCourse_def joinLeaderboard_def leaveLeaderboard_def
  submitQuizAnswer_def startQuiz_def completeLesson_def sendHeartbeat_def
  updateActivity_def emit_def on_def off_def

lemma call_counters:
  "reconnectAttempts (snd (call c s)) = reconnectAttempts s \<and>
   maxReconnectAttempts (snd (call c s)) = maxReconnectAttempts s \<and>
   reconnectDelay (snd (call c s)) = reconnectDelay s \<and>
   timers (snd (call c s)) = timers s"
  by (cases c) (simp_all add: method_defs split: option.splits)

lemma call_without_socket:
  "socket s = None \<Longrightarrow>
     call c s = (if c = IsConnected then Boolean False else Undefined, s)"
  by (cases c) (simp_all add: method_defs isConnected_def disconnect_def)

lemma call_command:
  "command_message c = Some (t, d) \<Longrightarrow> socket s = Some h \<Longrightarrow>
     call c s = (Undefined, perform (SocketEmit h t d) s)"
  by (cases c) (auto simp add: method_defs socket_emit_def)

subsection \<open>The counter along a run\<close>

lemma step_consts [simp]:
  "maxReconnectAttempts (step s a) = maxReconnectAttempts s"
  "reconnectDelay (step s a) = reconnectDelay s"
  by (cases a; simp add: call_counters)+

lemma step_bounded:
  "reconnectAttempts s \<le> maxReconnectAttempts s \<Longrightarrow>
     reconnectAttempts (step s a) \<le> maxReconnectAttempts s"
  by (cases a) (simp_all add: call_counters transport_event_bounded fire_timer_bounded)

lemma exec_consts [simp]:
  "maxReconnectAttempts (exec as s) = maxReconnectAttempts s"
  "reconnectDelay (exec as s) = reconnectDelay s"
  unfolding exec_def by (induction as arbitrary: s; simp)+

lemma exec_bounded:
  "reconnectAttempts s \<le> maxReconnectAttempts s \<Longrightarrow>
     reconnectAttempts (exec as s) \<le> maxReconnectAttempts s"
  unfolding exec_def
proof (induction as arbitrary: s)
  case Nil
  then show ?case by simp
next
  case (Cons a as)
  from Cons.prems have "reconnectAttempts (step s a) \<le> maxReconnectAttempts (step s a)"
    by (simp add: step_bounded)
  from Cons.IH [OF this] show ?case by simp
qed

lemma new_WebSocketService_consts:
  "maxReconnectAttempts (new_WebSocketService b w) = 5"
  "reconnectDelay (new_WebSocketService b w) = 1000"
  "reconnectAttempts (new_WebSocketService b w) \<le> 5"
  unfolding new_WebSocketService_def
  using connect_bounded [of "\<lparr>hasWindow = hasWindow w, handles = handles w, timers = timers w,
    effects = effects w, socket = None, reconnectAttempts = 0, maxReconnectAttempts = 5,
    reconnectDelay = 1000\<rparr>" b]
  by simp_all

lemma step_given_up:
  assumes "maxReconnectAttempts s \<le> reconnectAttempts s" and "\<not> is_connect a"
  shows "reconnectAttempts (step s a) = reconnectAttempts s \<and>
         subseq (timers (step s a)) (timers s)"
proof (cases a)
  case (Call c)
  then show ?thesis by (simp add: call_counters)
next
  case (Transport h ev)
  with assms(2) have "ev \<noteq> Connect" by auto
  with assms(1) Transport show ?thesis by (simp add: transport_event_given_up)
next
  case (Timer i b)
  with assms(1) show ?thesis by (simp add: fire_timer_given_up)
qed

lemma exec_given_up:
  "maxReconnectAttempts s \<le> reconnectAttempts s \<Longrightarrow> list_all (\<lambda>a. \<not> is_connect a) as \<Longrightarrow>
     reconnectAttempts (exec as s) = reconnectAttempts s \<and>
     subseq (timers (exec as s)) (timers s)"
  unfolding exec_def
proof (induction as arbitrary: s)
  case Nil
  then show ?case by simp
next
  case (Cons a as)
  from Cons.prems have st: "reconnectAttempts (step s a) = reconnectAttempts s \<and>
      subseq (timers (step s a)) (timers s)"
    by (intro step_given_up) simp_all
  with Cons.prems have "maxReconnectAttempts (step s a) \<le> reconnectAttempts (step s a)"
    "list_all (\<lambda>a. \<not> is_connect a) as" by simp_all
  from Cons.IH [OF this] st show ?case
    by (auto intro: subseq_order.order_trans)
qed

lemma scheduled_given_up:
  "maxReconnectAttempts s \<le> reconnectAttempts s \<Longrightarrow> scheduled s = []"
  by (simp add: scheduled_def handleReconnect_given_up)

lemma funpow_handleReconnect:
  "reconnectAttempts s \<le> maxReconnectAttempts s \<Longrightarrow>
     reconnectAttempts ((handleReconnect ^^ k) s) =
       min (reconnectAttempts s + k) (maxReconnectAttempts s) \<and>
     maxReconnectAttempts ((handleReconnect ^^ k) s) = maxReconnectAttempts s"
proof (induction k)
  case 0
  then show ?case by simp
next
  case (Suc k)
  let ?x = "(handleReconnect ^^ k) s"
  from Suc have ih: "reconnectAttempts ?x = min (reconnectAttempts s + k) (maxReconnectAttempts s)"
    "maxReconnectAttempts ?x = maxReconnectAttempts s" by simp_all
  show ?case
  proof (cases "reconnectAttempts ?x < maxReconnectAttempts ?x")
    case True
    with handleReconnect_retry [OF True] ih show ?thesis by simp
  next
    case False
    then have "maxReconnectAttempts ?x \<le> reconnectAttempts ?x" by simp
    with handleReconnect_given_up [OF this] ih show ?thesis by simp
  qed
qed

lemma exec_errors:
  "wired h ''connect_error'' s \<Longrightarrow> reconnectAttempts s + k \<le> maxReconnectAttempts s \<Longrightarrow>
     reconnectAttempts (exec (replicate k (Transport h ConnectError)) s) = reconnectAttempts s + k \<and>
     timers (exec (replicate k (Transport h ConnectError)) s) =
       timers s @ map (\<lambda>j. reconnectDelay s * 2 ^ (reconnectAttempts s + j)) [0..<k] \<and>
     handles (exec (replicate k (Transport h ConnectError)) s) = handles s"
proof (induction k)
  case 0
  then show ?case by (simp add: exec_def)
next
  case (Suc k)
  let ?x = "exec (replicate k (Transport h ConnectError)) s"
  from Suc have ih: "reconnectAttempts ?x = reconnectAttempts s + k"
    "timers ?x = timers s @ map (\<lambda>j. reconnectDelay s * 2 ^ (reconnectAttempts s + j)) [0..<k]"
    "handles ?x = handles s"
    by simp_all
  have w: "wired h ''connect_error'' ?x"
    using Suc.prems(1) ih(3) by (auto simp add: wired_def live_def listeners_for_def)
  have "replicate (Suc k) (Transport h ConnectError) =
          replicate k (Transport h ConnectError) @ [Transport h ConnectError]"
    by (simp add: replicate_append_same)
  then have e: "exec (replicate (Suc k) (Transport h ConnectError)) s =
      transport_event h ConnectError ?x"
    by (simp only: exec_def foldl_append foldl.simps step.simps)
  have lt: "reconnectAttempts ?x < maxReconnectAttempts ?x" using Suc.prems(2) ih(1) by simp
  from w have "live h ?x" "count_list (listeners_for h (event_name ConnectError) ?x) Builtin = 1"
    by (simp_all add: wired_def)
  from transport_event_retry [OF this lt] ih w
  show ?case unfolding e
    by (simp add: handles_transport_event set_connected_def wired_def)
qed


subsection \<open>Sample runs\<close>

lemma wired_same_handles: "handles s' = handles s \<Longrightarrow> wired h name s' = wired h name s"
  by (simp add: wired_def live_def listeners_for_def)

lemma five_errors:
  "reconnectAttempts (exec (replicate 5 (Transport 0 ConnectError)) fresh_service) = 5"
  "timers (exec (replicate 5 (Transport 0 ConnectError)) fresh_service) =
     [1000, 2000, 4000, 8000, 16000]"
  "handles (exec (replicate 5 (Transport 0 ConnectError)) fresh_service) = [wired_handle]"
  using exec_errors [of 0 fresh_service 5]
  by (simp_all add: fresh_service_wired fresh_service_fields upt_rec [of 0] upt_rec [of "Suc _"]
      del: upt.simps replicate.simps)

lemma wired_replicate:
  "handles s = replicate n wired_handle \<Longrightarrow> h < n \<Longrightarrow> name \<in> set builtin_events \<Longrightarrow>
     wired h name s"
  by (simp add: wired_def live_def listeners_for_def listeners_for_wired_handle)

lemma handles_transport_event_ConnectError [simp]:
  "handles (transport_event h ConnectError s) = handles s"
  by (simp add: handles_transport_event set_connected_def)

lemma retry_round:
  assumes "between_attempts k s" and "k < 5"
  shows "between_attempts (Suc k) (exec [Transport k ConnectError, Timer 0 False] s)"
proof -
  let ?e = "transport_event k ConnectError s"
  from assms(1) have w: "wired k ''connect_error'' s"
    by (intro wired_replicate [of s "Suc k"]) (simp_all add: between_attempts_def)
  from assms have lt: "reconnectAttempts s < maxReconnectAttempts s"
    by (simp add: between_attempts_def)
  from w have "live k s" "count_list (listeners_for k (event_name ConnectError) s) Builtin = 1"
    by (simp_all add: wired_def)
  from transport_event_retry [OF this lt] assms(1)
  have e: "reconnectAttempts ?e = Suc k" "timers ?e = [1000 * 2 ^ k]"
    by (simp_all add: between_attempts_def)
  from fire_timer_opens [of 0 ?e] e assms(1)
  have "socket (fire_timer 0 False ?e) = Some (Suc k)"
    "handles (fire_timer 0 False ?e) = replicate (Suc (Suc k)) wired_handle"
    "timers (fire_timer 0 False ?e) = []"
    by (simp_all add: between_attempts_def replicate_append_same)
  moreover have "reconnectAttempts (fire_timer 0 False ?e) = Suc k"
    using e by (simp add: fire_timer_pending connect_opens)
  ultimately show ?thesis
    using assms(1) by (simp add: between_attempts_def exec_def)
qed

lemma between_attempts_fresh: "between_attempts 0 fresh_service"
  by (simp add: between_attempts_def fresh_service_fields)

lemma exec_Cons2: "exec (a # b # as) s = exec as (exec [a, b] s)"
  by (simp add: exec_def)

lemma exhausted_fields:
  "reconnectAttempts exhausted = 5"
  "maxReconnectAttempts exhausted = 5"
  "reconnectDelay exhausted = 1000"
  "timers exhausted = []"
  "socket exhausted = Some 5"
  "name \<in> set builtin_events \<Longrightarrow> wired 5 name exhausted"
proof -
  let ?x = "exec [Transport 4 ConnectError, Timer 0 False]
             (exec [Transport 3 ConnectError, Timer 0 False]
               (exec [Transport 2 ConnectError, Timer 0 False]
                 (exec [Transport 1 ConnectError, Timer 0 False]
                   (exec [Transport 0 ConnectError, Timer 0 False] fresh_service))))"
  let ?x1 = "exec [Transport 0 ConnectError, Timer 0 False] fresh_service"
  let ?x2 = "exec [Transport 1 ConnectError, Timer 0 False] ?x1"
  let ?x3 = "exec [Transport 2 ConnectError, Timer 0 False] ?x2"
  let ?x4 = "exec [Transport 3 ConnectError, Timer 0 False] ?x3"
  have b1: "between_attempts 1 ?x1"
    using retry_round [of 0 fresh_service] between_attempts_fresh by simp
  have b2: "between_attempts 2 ?x2"
    using retry_round [of 1 ?x1] b1 by (simp add: eval_nat_numeral)
  have b3: "between_attempts 3 ?x3"
    using retry_round [of 2 ?x2] b2 by (simp add: eval_nat_numeral)
  have b4: "between_attempts 4 ?x4"
    using retry_round [of 3 ?x3] b3 by (simp add: eval_nat_numeral)
  have b: "between_attempts 5 ?x"
    using retry_round [of 4 ?x4] b4 by (simp add: eval_nat_numeral)
  have x: "exhausted = transport_event 5 ConnectError ?x"
    by (simp add: exhausted_def exec_def)
  from b have m: "maxReconnectAttempts ?x \<le> reconnectAttempts ?x"
    by (simp add: between_attempts_def del: exec_consts)
  from transport_event_given_up [OF m, of ConnectError 5] b
  show "reconnectAttempts exhausted = 5" "timers exhausted = []"
    by (simp_all add: x between_attempts_def del: exec_consts)
  from b show "maxReconnectAttempts exhausted = 5" "reconnectDelay exhausted = 1000"
    "socket exhausted = Some 5"
    by (simp_all add: x between_attempts_def del: exec_consts)
  from b have "wired 5 name ?x" if "name \<in> set builtin_events"
    using that by (intro wired_replicate [of ?x 6]) (simp_all add: between_attempts_def numeral_eq_Suc)
  then show "wired 5 name exhausted" if "name \<in> set builtin_events"
    using that by (simp add: x)
qed


lemma listeners_for_removed:
  "map snd (filter (\<lambda>p. fst p = name) (filter (\<lambda>p. fst p \<noteq> name) xs)) = []"
  by (induction xs) simp_all

lemma points_listener_removed_fields:
  "hasWindow points_listener_removed"
  "socket points_listener_removed = Some 0"
  "live 0 points_listener_removed"
  "listeners_for 0 ''points-update'' points_listener_removed = []"
  "\<not> wired 0 ''points-update'' points_listener_removed"
  by (simp_all add: points_listener_removed_def off_def socket_removeAllListeners_def
      fresh_service_fields handles_update_handle live_def listeners_for_def wired_def
      listeners_for_removed)

section \<open>The claims\<close>

subsection \<open>Backoff delays\<close>

text \<open>
  Claim C5. For every attempt count \<open>a\<close> from 1 to \<^verbatim>\<open>maxReconnectAttempts\<close>, the
  delay that \<^verbatim>\<open>handleReconnect\<close> schedules for attempt \<open>a\<close> (the counter stands at
  \<open>a - 1\<close> when it is called) is \<^verbatim>\<open>reconnectDelay\<close> times \<open>2 ^ (a - 1)\<close>, and
  the delay of a later attempt \<open>b\<close> is never smaller than that of an earlier one.
\<close>

theorem backoff_delay_exponential:
  assumes "1 \<le> a" and "a \<le> b" and "b \<le> maxReconnectAttempts s"
  shows "scheduled (s\<lparr>reconnectAttempts := a - 1\<rparr>) = [reconnectDelay s * 2 ^ (a - 1)]
       \<and> scheduled (s\<lparr>reconnectAttempts := b - 1\<rparr>) = [reconnectDelay s * 2 ^ (b - 1)]
       \<and> hd (scheduled (s\<lparr>reconnectAttempts := a - 1\<rparr>))
           \<le> hd (scheduled (s\<lparr>reconnectAttempts := b - 1\<rparr>))"
proof -
  have sched: "scheduled (s\<lparr>reconnectAttempts := k - 1\<rparr>) = [reconnectDelay s * 2 ^ (k - 1)]"
    if "1 \<le> k" "k \<le> maxReconnectAttempts s" for k
    using that handleReconnect_retry [of "s\<lparr>reconnectAttempts := k - 1\<rparr>"]
    by (simp add: scheduled_def)
  have mono: "reconnectDelay s * 2 ^ (a - 1) \<le> reconnectDelay s * 2 ^ (b - 1)"
    using assms by (simp add: power_increasing diff_le_mono)
  from assms have "a \<le> maxReconnectAttempts s" "1 \<le> b" by simp_all
  with assms sched mono show ?thesis by simp
qed

text \<open>On a new instance: attempt 2 waits 2000 ms, attempt 5 waits 16000 ms.\<close>

theorem backoff_delay_exponential_witness:
  "scheduled (fresh_service\<lparr>reconnectAttempts := 1\<rparr>) = [2000]
   \<and> scheduled (fresh_service\<lparr>reconnectAttempts := 4\<rparr>) = [16000]
   \<and> hd (scheduled (fresh_service\<lparr>reconnectAttempts := 1\<rparr>))
       \<le> hd (scheduled (fresh_service\<lparr>reconnectAttempts := 4\<rparr>))"
  using backoff_delay_exponential [of 2 5 fresh_service]
  by (simp add: fresh_service_fields)

subsection \<open>When a retry is scheduled\<close>

text \<open>
  Claim C1, as amended. While the counter is below \<^verbatim>\<open>maxReconnectAttempts\<close>, every
  \<^verbatim>\<open>connect_error\<close> event and every \<^verbatim>\<open>disconnect\<close> event with the reason
  \<^verbatim>\<open>io server disconnect\<close>, arriving on an open handle that carries the built-in
  listener, counts one attempt and schedules exactly one retry with the backoff delay;
  when that timer fires and \<^verbatim>\<open>io\<close> returns, a new handle is opened and becomes
  the current one. A \<^verbatim>\<open>disconnect\<close> event with any other reason schedules
  nothing and leaves the counter alone.
\<close>

theorem retry_on_error_and_server_disconnect:
  assumes "reconnectAttempts s < maxReconnectAttempts s"
    and "wired h ''connect_error'' s" and "wired h ''disconnect'' s"
    and "reason \<noteq> ''io server disconnect''"
  shows "timers (transport_event h ConnectError s) =
           timers s @ [reconnectDelay s * 2 ^ reconnectAttempts s]
       \<and> reconnectAttempts (transport_event h ConnectError s) = Suc (reconnectAttempts s)
       \<and> socket (fire_timer (length (timers s)) False (transport_event h ConnectError s)) =
           Some (length (handles s))
       \<and> timers (transport_event h (Disconnect ''io server disconnect'') s) =
           timers s @ [reconnectDelay s * 2 ^ reconnectAttempts s]
       \<and> reconnectAttempts (transport_event h (Disconnect ''io server disconnect'') s) =
           Suc (reconnectAttempts s)
       \<and> socket (fire_timer (length (timers s)) False
           (transport_event h (Disconnect ''io server disconnect'') s)) =
           Some (length (handles s))
       \<and> timers (transport_event h (Disconnect reason) s) = timers s
       \<and> reconnectAttempts (transport_event h (Disconnect reason) s) = reconnectAttempts s"
proof -
  have e: "reconnectAttempts (transport_event h ConnectError s) = Suc (reconnectAttempts s) \<and>
           timers (transport_event h ConnectError s) =
             timers s @ [reconnectDelay s * 2 ^ reconnectAttempts s]"
    using assms(1,2) by (intro transport_event_retry) (simp_all add: wired_def)
  have d: "reconnectAttempts (transport_event h (Disconnect ''io server disconnect'') s) =
             Suc (reconnectAttempts s) \<and>
           timers (transport_event h (Disconnect ''io server disconnect'') s) =
             timers s @ [reconnectDelay s * 2 ^ reconnectAttempts s]"
    using assms(1,3) by (intro transport_event_retry) (simp_all add: wired_def)
  have f: "socket (fire_timer (length (timers s)) False (transport_event h ev s)) =
             Some (length (handles s))"
    if "timers (transport_event h ev s) = timers s @ [x]" for ev x
    using that fire_timer_opens [of "length (timers s)" "transport_event h ev s"] by simp
  from e d f [of ConnectError] f [of "Disconnect ''io server disconnect''"]
    transport_event_Disconnect_other [OF assms(4), of h s]
  show ?thesis by simp
qed

theorem retry_on_error_and_server_disconnect_witness:
  "reconnectAttempts fresh_service < maxReconnectAttempts fresh_service
   \<and> wired 0 ''connect_error'' fresh_service \<and> wired 0 ''disconnect'' fresh_service
   \<and> ''ping timeout'' \<noteq> ''io server disconnect''
   \<and> timers (transport_event 0 ConnectError fresh_service) = [1000]
   \<and> reconnectAttempts (transport_event 0 ConnectError fresh_service) = 1
   \<and> socket (fire_timer 0 False (transport_event 0 ConnectError fresh_service)) = Some 1
   \<and> timers (transport_event 0 (Disconnect ''io server disconnect'') fresh_service) = [1000]
   \<and> timers (transport_event 0 (Disconnect ''ping timeout'') fresh_service) = []"
proof -
  have a: "reconnectAttempts fresh_service < maxReconnectAttempts fresh_service"
    by (simp add: fresh_service_fields)
  have w: "wired 0 ''connect_error'' fresh_service" "wired 0 ''disconnect'' fresh_service"
    by (simp_all add: fresh_service_wired)
  have r: "''ping timeout'' \<noteq> ''io server disconnect''" by simp
  show ?thesis
    using a w r retry_on_error_and_server_disconnect [OF a w r]
    by (simp add: fresh_service_fields)
qed

text \<open>
  The claim as stated fails: a transport close that is not an explicit stop, arriving at
  a new instance that has not given up, schedules no retry.
\<close>

theorem transport_close_schedules_no_retry:
  "''transport close'' \<noteq> ''io client disconnect''
   \<and> reconnectAttempts fresh_service < maxReconnectAttempts fresh_service
   \<and> wired 0 ''disconnect'' fresh_service
   \<and> timers fresh_service = []
   \<and> timers (transport_event 0 (Disconnect ''transport close'') fresh_service) = []
   \<and> reconnectAttempts (transport_event 0 (Disconnect ''transport close'') fresh_service) = 0"
  using transport_event_Disconnect_other [of "''transport close''" 0 fresh_service]
  by (simp add: fresh_service_fields fresh_service_wired)

subsection \<open>The explicit stop\<close>




subsection \<open>The bound on the reconnect counter\<close>

text \<open>
  Claim C3, as amended. In every state that a run from the constructor reaches, the
  reconnect counter is at most \<^verbatim>\<open>maxReconnectAttempts\<close>, which is 5, and five
  failures in a row bring it to that bound. Once the counter stands at the bound,
  \<^verbatim>\<open>handleReconnect\<close> schedules nothing, and along any further run without a
  transport \<^verbatim>\<open>connect\<close> event the counter stays at the bound and no timer is added:
  the pending timers are a subsequence of those pending before. A \<^verbatim>\<open>connect\<close>
  event resets the counter, after which failures schedule retries again.
\<close>

theorem reconnect_counter_bounded:
  assumes "s = exec as (new_WebSocketService io_throws w)"
    and "list_all (\<lambda>a. \<not> is_connect a) bs"
  shows "reconnectAttempts s \<le> maxReconnectAttempts s
       \<and> maxReconnectAttempts s = 5
       \<and> reconnectAttempts ((handleReconnect ^^ 5) s) = 5
       \<and> (reconnectAttempts s = 5 \<longrightarrow>
            scheduled s = []
            \<and> reconnectAttempts (exec bs s) = 5
            \<and> subseq (timers (exec bs s)) (timers s))"
proof -
  have m: "maxReconnectAttempts s = 5"
    using assms(1) by (simp add: new_WebSocketService_consts)
  have b: "reconnectAttempts s \<le> maxReconnectAttempts s"
    using exec_bounded [of "new_WebSocketService io_throws w" as] assms(1)
    by (simp add: new_WebSocketService_consts)
  have f: "reconnectAttempts ((handleReconnect ^^ 5) s) = 5"
    using funpow_handleReconnect [OF b, of 5] m by simp
  have g: "scheduled s = [] \<and> reconnectAttempts (exec bs s) = 5 \<and>
           subseq (timers (exec bs s)) (timers s)"
    if "reconnectAttempts s = 5"
    using that m scheduled_given_up [of s] exec_given_up [of s bs] assms(2) by simp
  from m b f g show ?thesis by simp
qed

theorem reconnect_counter_bounded_witness:
  "list_all (\<lambda>a. \<not> is_connect a) [Transport 0 ConnectError, Timer 0 False]
   \<and> reconnectAttempts (exec (replicate 5 (Transport 0 ConnectError)) fresh_service) = 5
   \<and> scheduled (exec (replicate 5 (Transport 0 ConnectError)) fresh_service) = []
   \<and> reconnectAttempts (exec [Transport 0 ConnectError, Timer 0 False]
        (exec (replicate 5 (Transport 0 ConnectError)) fresh_service)) = 5
   \<and> subseq (timers (exec [Transport 0 ConnectError, Timer 0 False]
        (exec (replicate 5 (Transport 0 ConnectError)) fresh_service)))
        [1000, 2000, 4000, 8000, 16000]"
proof -
  have l: "list_all (\<lambda>a. \<not> is_connect a) [Transport 0 ConnectError, Timer 0 False]" by simp
  have s: "exec (replicate 5 (Transport 0 ConnectError)) fresh_service =
           exec (replicate 5 (Transport 0 ConnectError)) (new_WebSocketService False world0)"
    by (simp only: fresh_service_def)
  from reconnect_counter_bounded [OF s l] five_errors l
  show ?thesis by (simp del: replicate.simps exec_consts)
qed

text \<open>
  The claim as stated fails. After the first attempt and five retries have failed, the
  counter stands at the bound, no timer is pending and \<^verbatim>\<open>handleReconnect\<close>
  schedules nothing: the client has given up. A \<^verbatim>\<open>connect\<close> event on the last
  handle followed by one more failure then schedules a new retry after 1000 ms.
\<close>

theorem retry_after_giving_up:
  "reconnectAttempts exhausted = maxReconnectAttempts exhausted
   \<and> timers exhausted = []
   \<and> scheduled exhausted = []
   \<and> timers (exec [Transport 5 Connect, Transport 5 ConnectError] exhausted) = [1000]
   \<and> reconnectAttempts (exec [Transport 5 Connect, Transport 5 ConnectError] exhausted) = 1"
proof -
  let ?c = "transport_event 5 Connect exhausted"
  have c: "reconnectAttempts ?c = 0" "timers ?c = timers exhausted"
    using transport_event_connect [of 5 exhausted] by (simp_all add: exhausted_fields)
  have w: "live 5 ?c" "count_list (listeners_for 5 (event_name ConnectError) ?c) Builtin = 1"
    using exhausted_fields(6) [of "''connect_error''"] by (simp_all add: wired_def)
  have "reconnectAttempts ?c < maxReconnectAttempts ?c" by (simp add: c exhausted_fields)
  from transport_event_retry [OF w this] c
  show ?thesis
    by (simp add: exec_def exhausted_fields scheduled_given_up)
qed

subsection \<open>Handles across reconnects\<close>

text \<open>
  Claim C4, as amended. The instance refers to one handle at a time. A connect attempt
  whose \<^verbatim>\<open>io\<close> call returns appends a brand-new handle carrying the eleven built-in
  listeners and makes it the referenced one; every earlier handle is left exactly as it
  was: still open, its listeners still registered. A connect attempt whose \<^verbatim>\<open>io\<close>
  call throws changes neither the handles nor the reference.
\<close>

theorem connect_keeps_previous_handle:
  "handles (connect False s) = handles s @ [wired_handle]
   \<and> socket (connect False s) = Some (length (handles s))
   \<and> handles (connect True s) = handles s
   \<and> socket (connect True s) = socket s"
  by (simp add: connect_opens connect_throws)

theorem connect_keeps_previous_handle_witness:
  "handles (connect False fresh_service) = [wired_handle, wired_handle]
   \<and> socket (connect False fresh_service) = Some 1
   \<and> handles (connect True fresh_service) = [wired_handle]
   \<and> socket (connect True fresh_service) = Some 0"
  using connect_keeps_previous_handle [of fresh_service]
  by (simp add: fresh_service_fields)

text \<open>
  The claim as stated fails: after one failed attempt and its retry the instance refers
  to handle 1, while handle 0 is still open with all its listeners, and a
  \<^verbatim>\<open>points-update\<close> message arriving on either handle is dispatched to the window.
\<close>

theorem previous_handle_still_dispatches:
  "socket after_one_retry = Some 1
   \<and> live 0 after_one_retry
   \<and> listeners (handles after_one_retry ! 0) = listeners wired_handle
   \<and> window_events (inbound 0 ''points-update'' sample_payload after_one_retry) =
       [WindowEvent ''points-update'' (Some sample_payload)]
   \<and> window_events (inbound 1 ''points-update'' sample_payload after_one_retry) =
       [WindowEvent ''points-update'' (Some sample_payload)]"
proof -
  have w: "wired 0 ''points-update'' after_one_retry" "wired 1 ''points-update'' after_one_retry"
    using after_one_retry_wired [of "''points-update''"] by simp_all
  have "window_events (inbound h ''points-update'' sample_payload after_one_retry) =
          [WindowEvent ''points-update'' (Some sample_payload)]"
    if "wired h ''points-update'' after_one_retry" for h
    using inbound_window_events [OF that, of sample_payload, OF effects_on_points_update]
    by (simp add: after_one_retry_fields window_events_def sample_payload_def)
  with w show ?thesis
    by (simp add: after_one_retry_fields wired_def)
qed

subsection \<open>Outbound commands\<close>

text \<open>
  Claim C6, as amended. Each of the nine outbound command methods returns normally; it
  performs no transport call and changes nothing when the socket reference is null, and
  otherwise, whether the handle is connected or not, it makes exactly one
  \<^verbatim>\<open>emit\<close> call on the current handle with the command's topic and payload.
\<close>

theorem command_sent_whenever_socket_exists:
  assumes "command_message c = Some (t, d)"
  shows "call c s =
           (Undefined, case socket s of None \<Rightarrow> s | Some h \<Rightarrow> perform (SocketEmit h t d) s)"
  using assms call_without_socket [of s c] call_command [of c t d s]
  by (cases "socket s") auto

theorem command_sent_whenever_socket_exists_witness:
  "command_message (JoinCourse ''c1'' ''u1'') =
     Some (''join-course'', [(''courseId'', Str ''c1''), (''userId'', Str ''u1'')])
   \<and> call (JoinCourse ''c1'' ''u1'') fresh_service =
       (Undefined,
        perform (SocketEmit 0 ''join-course'' [(''courseId'', Str ''c1''), (''userId'', Str ''u1'')])
          fresh_service)
   \<and> call (JoinCourse ''c1'' ''u1'') (disconnect fresh_service) =
       (Undefined, disconnect fresh_service)"
  using command_sent_whenever_socket_exists
      [of "JoinCourse ''c1'' ''u1''" "''join-course''"
        "[(''courseId'', Str ''c1''), (''userId'', Str ''u1'')]" fresh_service]
    command_sent_whenever_socket_exists
      [of "JoinCourse ''c1'' ''u1''" "''join-course''"
        "[(''courseId'', Str ''c1''), (''userId'', Str ''u1'')]" "disconnect fresh_service"]
  by (simp add: fresh_service_fields)

text \<open>
  The claim as stated fails: a new instance is not connected, and \<^verbatim>\<open>joinCourse\<close>
  on it performs a transport send call.
\<close>

theorem command_sent_while_not_connected:
  "\<not> isConnected fresh_service
   \<and> filter is_socket_emit
       (fresh_effects fresh_service (snd (call (JoinCourse ''c1'' ''u1'') fresh_service))) =
       [SocketEmit 0 ''join-course'' [(''courseId'', Str ''c1''), (''userId'', Str ''u1'')]]"
  by (simp add: isConnected_def socket_connected_def fresh_service_fields joinCourse_def
      socket_emit_def fresh_effects_def)

subsection \<open>The reserved topics\<close>

text \<open>
  Claim C7, as amended. For every message arriving on an open handle that carries the
  built-in listeners: on \<^verbatim>\<open>points-update\<close>, \<^verbatim>\<open>badge-unlocked\<close> and
  \<^verbatim>\<open>streak-update\<close> the client both dispatches the message, by one window event of
  the topic carrying the payload (where there is a window), and produces its toast
  (always for a badge, for points only when \<^verbatim>\<open>pointsGained > 0\<close>, for a streak
  only when \<^verbatim>\<open>streakMilestone\<close> is truthy); on \<^verbatim>\<open>notification\<close> and
  \<^verbatim>\<open>competition-announcement\<close> it produces exactly one toast and dispatches no
  window event.
\<close>

theorem reserved_topics_effects:
  assumes "wired h ''points-update'' s" and "wired h ''badge-unlocked'' s"
    and "wired h ''streak-update'' s" and "wired h ''notification'' s"
    and "wired h ''competition-announcement'' s"
  shows "window_events (inbound h ''points-update'' d s) =
           (if hasWindow s then [WindowEvent ''points-update'' (Some d)] else [])
       \<and> toasts (inbound h ''points-update'' d s) =
           (case pointsGained d of
              None \<Rightarrow> []
            | Some n \<Rightarrow>
                if 0 < n then [Toast ToastSuccess (PointsEarned n) (Some 3000) None (Some Green)]
                else [])
       \<and> window_events (inbound h ''badge-unlocked'' d s) =
           (if hasWindow s then [WindowEvent ''badge-unlocked'' (Some d)] else [])
       \<and> toasts (inbound h ''badge-unlocked'' d s) =
           [Toast ToastSuccess (BadgeUnlocked (badgeName d)) (Some 5000) None (Some Purple)]
       \<and> window_events (inbound h ''streak-update'' d s) =
           (if hasWindow s then [WindowEvent ''streak-update'' (Some d)] else [])
       \<and> toasts (inbound h ''streak-update'' d s) =
           (case streakMilestone d of
              None \<Rightarrow> []
            | Some n \<Rightarrow>
                if n \<noteq> 0 then [Toast ToastSuccess (StreakDay n) (Some 4000) None None] else [])
       \<and> window_events (inbound h ''notification'' d s) = []
       \<and> toasts (inbound h ''notification'' d s) =
           [if msg_type d = Some ''success''
            then Toast ToastSuccess (Text (message d)) (Some 4000) None None
            else if msg_type d = Some ''info''
            then Toast ToastPlain (Text (message d)) (Some 4000) None None
            else if msg_type d = Some ''warning''
            then Toast ToastPlain (Text (message d)) (Some 5000) (Some WarningSign) None
            else if msg_type d = Some ''error''
            then Toast ToastError (Text (message d)) (Some 6000) None None
            else Toast ToastPlain (Text (message d)) None None None]
       \<and> window_events (inbound h ''competition-announcement'' d s) = []
       \<and> toasts (inbound h ''competition-announcement'' d s) =
           [Toast ToastPlain (Text (message d)) (Some 8000) (Some Trophy) (Some Gradient)]"
proof -
  have p: "window_events (inbound h ''points-update'' d s) =
             (if hasWindow s then [WindowEvent ''points-update'' (Some d)] else [])"
    using inbound_window_events [OF assms(1), of d, OF effects_on_points_update]
    by (simp add: window_events_def split: option.splits)
  have pt: "toasts (inbound h ''points-update'' d s) =
           (case pointsGained d of
              None \<Rightarrow> []
            | Some n \<Rightarrow>
                if 0 < n then [Toast ToastSuccess (PointsEarned n) (Some 3000) None (Some Green)]
                else [])"
    using inbound_toasts [OF assms(1), of d, OF effects_on_points_update]
    by (simp add: toasts_def split: option.splits)
  have b: "window_events (inbound h ''badge-unlocked'' d s) =
             (if hasWindow s then [WindowEvent ''badge-unlocked'' (Some d)] else [])"
    using inbound_window_events [OF assms(2), of d, OF effects_on_badge_unlocked]
    by (simp add: window_events_def)
  have bt: "toasts (inbound h ''badge-unlocked'' d s) =
           [Toast ToastSuccess (BadgeUnlocked (badgeName d)) (Some 5000) None (Some Purple)]"
    using inbound_toasts [OF assms(2), of d, OF effects_on_badge_unlocked]
    by (simp add: toasts_def)
  have k: "window_events (inbound h ''streak-update'' d s) =
             (if hasWindow s then [WindowEvent ''streak-update'' (Some d)] else [])"
    using inbound_window_events [OF assms(3), of d, OF effects_on_streak_update]
    by (simp add: window_events_def split: option.splits)
  have kt: "toasts (inbound h ''streak-update'' d s) =
           (case streakMilestone d of
              None \<Rightarrow> []
            | Some n \<Rightarrow>
                if n \<noteq> 0 then [Toast ToastSuccess (StreakDay n) (Some 4000) None None] else [])"
    using inbound_toasts [OF assms(3), of d, OF effects_on_streak_update]
    by (simp add: toasts_def split: option.splits)
  have n: "window_events (inbound h ''notification'' d s) = []"
    using inbound_window_events [OF assms(4), of d, OF effects_on_notification]
    by (simp add: window_events_def)
  have nt: "toasts (inbound h ''notification'' d s) =
           [if msg_type d = Some ''success''
            then Toast ToastSuccess (Text (message d)) (Some 4000) None None
            else if msg_type d = Some ''info''
            then Toast ToastPlain (Text (message d)) (Some 4000) None None
            else if msg_type d = Some ''warning''
            then Toast ToastPlain (Text (message d)) (Some 5000) (Some WarningSign) None
            else if msg_type d = Some ''error''
            then Toast ToastError (Text (message d)) (Some 6000) None None
            else Toast ToastPlain (Text (message d)) None None None]"
    using inbound_toasts [OF assms(4), of d, OF effects_on_notification]
    by (simp add: toasts_def)
  have c: "window_events (inbound h ''competition-announcement'' d s) = []"
    using inbound_window_events [OF assms(5), of d, OF effects_on_competition_announcement]
    by (simp add: window_events_def)
  have ct: "toasts (inbound h ''competition-announcement'' d s) =
           [Toast ToastPlain (Text (message d)) (Some 8000) (Some Trophy) (Some Gradient)]"
    using inbound_toasts [OF assms(5), of d, OF effects_on_competition_announcement]
    by (simp add: toasts_def)
  from p pt b bt k kt n nt c ct show ?thesis by (intro conjI)
qed

theorem reserved_topics_effects_witness:
  "hasWindow fresh_service
   \<and> wired 0 ''points-update'' fresh_service \<and> wired 0 ''badge-unlocked'' fresh_service
   \<and> wired 0 ''streak-update'' fresh_service \<and> wired 0 ''notification'' fresh_service
   \<and> wired 0 ''competition-announcement'' fresh_service
   \<and> window_events (inbound 0 ''badge-unlocked'' sample_payload fresh_service) =
       [WindowEvent ''badge-unlocked'' (Some sample_payload)]
   \<and> toasts (inbound 0 ''badge-unlocked'' sample_payload fresh_service) =
       [Toast ToastSuccess (BadgeUnlocked ''Explorer'') (Some 5000) None (Some Purple)]
   \<and> toasts (inbound 0 ''streak-update'' sample_payload fresh_service) =
       [Toast ToastSuccess (StreakDay 7) (Some 4000) None None]
   \<and> window_events (inbound 0 ''notification'' sample_payload fresh_service) = []
   \<and> toasts (inbound 0 ''notification'' sample_payload fresh_service) =
       [Toast ToastPlain (Text ''hello'') (Some 4000) None None]
   \<and> window_events (inbound 0 ''competition-announcement'' sample_payload fresh_service) = []
   \<and> toasts (inbound 0 ''competition-announcement'' sample_payload fresh_service) =
       [Toast ToastPlain (Text ''hello'') (Some 8000) (Some Trophy) (Some Gradient)]"
proof -
  have h: "hasWindow fresh_service" by (simp add: fresh_service_fields)
  have w: "wired 0 ''points-update'' fresh_service" "wired 0 ''badge-unlocked'' fresh_service"
    "wired 0 ''streak-update'' fresh_service" "wired 0 ''notification'' fresh_service"
    "wired 0 ''competition-announcement'' fresh_service"
    by (simp_all add: fresh_service_wired)
  show ?thesis
    using h w reserved_topics_effects [OF w, of sample_payload]
    by (simp add: sample_payload_def)
qed

text \<open>
  The claim as stated fails on two of the five topics: a \<^verbatim>\<open>notification\<close> and a
  \<^verbatim>\<open>competition-announcement\<close> arriving at a new instance, in a window context,
  dispatch no window event.
\<close>

theorem notification_not_dispatched:
  "hasWindow fresh_service \<and> wired 0 ''notification'' fresh_service
   \<and> window_events (inbound 0 ''notification'' sample_payload fresh_service) = []
   \<and> wired 0 ''competition-announcement'' fresh_service
   \<and> window_events (inbound 0 ''competition-announcement'' sample_payload fresh_service) = []"
proof -
  have w: "wired 0 ''notification'' fresh_service"
    "wired 0 ''competition-announcement'' fresh_service"
    by (simp_all add: fresh_service_wired)
  show ?thesis
    using w inbound_window_events [OF w(1), of sample_payload, OF effects_on_notification]
      inbound_window_events [OF w(2), of sample_payload, OF effects_on_competition_announcement]
    by (simp add: fresh_service_fields window_events_def)
qed

subsection \<open>Points updates\<close>

text \<open>
  Claim C8, as amended. For every \<^verbatim>\<open>points-update\<close> message arriving on an open
  handle on which the built-in \<^verbatim>\<open>points-update\<close> listener is registered: exactly
  one points-earned toast carrying the gained amount is produced when
  \<^verbatim>\<open>pointsGained > 0\<close> and none otherwise; and whatever \<^verbatim>\<open>pointsGained\<close> is,
  the message is dispatched to the topic's subscribers, the listeners on the window, by
  exactly one window event carrying the payload. Where there is no window there are no
  such subscribers, and no event is dispatched.
\<close>

theorem points_update_dispatch_and_toast:
  assumes "wired h ''points-update'' s"
  shows "window_events (inbound h ''points-update'' d s) =
           (if hasWindow s then [WindowEvent ''points-update'' (Some d)] else [])
       \<and> toasts (inbound h ''points-update'' d s) =
           (case pointsGained d of
              None \<Rightarrow> []
            | Some n \<Rightarrow>
                if 0 < n then [Toast ToastSuccess (PointsEarned n) (Some 3000) None (Some Green)]
                else [])"
  using inbound_window_events [OF assms, of d, OF effects_on_points_update]
    inbound_toasts [OF assms, of d, OF effects_on_points_update]
  by (simp add: window_events_def toasts_def split: option.splits)

theorem points_update_dispatch_and_toast_witness:
  "hasWindow fresh_service \<and> wired 0 ''points-update'' fresh_service
   \<and> window_events (inbound 0 ''points-update'' sample_payload fresh_service) =
       [WindowEvent ''points-update'' (Some sample_payload)]
   \<and> toasts (inbound 0 ''points-update'' sample_payload fresh_service) =
       [Toast ToastSuccess (PointsEarned 50) (Some 3000) None (Some Green)]
   \<and> window_events (inbound 0 ''points-update'' (sample_payload\<lparr>pointsGained := Some 0\<rparr>)
         fresh_service) =
       [WindowEvent ''points-update'' (Some (sample_payload\<lparr>pointsGained := Some 0\<rparr>))]
   \<and> toasts (inbound 0 ''points-update'' (sample_payload\<lparr>pointsGained := Some 0\<rparr>)
         fresh_service) = []"
proof -
  have h: "hasWindow fresh_service" by (simp add: fresh_service_fields)
  have w: "wired 0 ''points-update'' fresh_service" by (simp add: fresh_service_wired)
  show ?thesis
    using h w points_update_dispatch_and_toast [OF w, of sample_payload]
      points_update_dispatch_and_toast [OF w, of "sample_payload\<lparr>pointsGained := Some 0\<rparr>"]
    by (simp add: sample_payload_def)
qed

text \<open>
  The claim as stated fails: \<^verbatim>\<open>off('points-update')\<close> without a callback removes
  every listener of that name from the handle, the built-in one included. A
  \<^verbatim>\<open>points-update\<close> message with \<^verbatim>\<open>pointsGained\<close> 50 that then arrives on
  the open handle, in a window context, produces nothing: no window event and no toast.
\<close>

theorem points_update_lost_after_off:
  "hasWindow points_listener_removed
   \<and> live 0 points_listener_removed
   \<and> pointsGained sample_payload = Some 50
   \<and> inbound 0 ''points-update'' sample_payload points_listener_removed = []
   \<and> window_events (inbound 0 ''points-update'' sample_payload points_listener_removed) = []
   \<and> toasts (inbound 0 ''points-update'' sample_payload points_listener_removed) = []"
proof -
  have "inbound 0 ''points-update'' sample_payload points_listener_removed = []"
    using points_listener_removed_fields(3,4)
    by (simp add: inbound_def fresh_effects_def transport_event_live)
  then show ?thesis
    by (simp add: points_listener_removed_fields sample_payload_def window_events_def toasts_def)
qed

subsection \<open>The accessor without a window\<close>

text \<open>
  Claim C9. Without a window, the singleton accessor returns the mock object and creates
  nothing; every one of the fourteen methods called on what it returned leaves the whole
  module state unchanged and returns normally (no \<^verbatim>\<open>TypeError\<close>),
  \<^verbatim>\<open>isConnected\<close> with \<^verbatim>\<open>false\<close> and the others with \<^verbatim>\<open>undefined\<close>.
\<close>

theorem server_side_accessor_is_inert:
  assumes "\<not> window_defined m"
  shows "getWebSocketService io_throws m = (Mock, m)
       \<and> invoke (fst (getWebSocketService io_throws m)) c m =
           Inr (if c = IsConnected then Boolean False else Undefined, m)"
  using assms
  by (cases c) (simp_all add: getWebSocketService_def mock_call_def mock_methods_def)

theorem server_side_accessor_is_inert_witness:
  "\<not> window_defined (Uninitialised server_world)
   \<and> getWebSocketService False (Uninitialised server_world) = (Mock, Uninitialised server_world)
   \<and> invoke (fst (getWebSocketService False (Uninitialised server_world))) IsConnected
       (Uninitialised server_world) = Inr (Boolean False, Uninitialised server_world)
   \<and> invoke (fst (getWebSocketService False (Uninitialised server_world)))
       (JoinCourse ''c1'' ''u1'') (Uninitialised server_world) =
       Inr (Undefined, Uninitialised server_world)"
proof -
  have w: "\<not> window_defined (Uninitialised server_world)" by (simp add: server_world_def)
  show ?thesis
    using w server_side_accessor_is_inert [OF w, of False IsConnected]
      server_side_accessor_is_inert [OF w, of False "JoinCourse ''c1'' ''u1''"]
    by (auto simp del: invoke.simps)
qed

subsection \<open>After the explicit stop\<close>



end
